theory Spec2Isabelle
  imports Main "HOL-Library.Sublist"
begin

section \<open>JavaScript strings\<close>

text \<open>
  A JavaScript string is a sequence of UTF-16 code units, and \<open>length\<close>, \<open>substring\<close>,
  \<open>charAt\<close> and the regular expressions of the sources (none carries the \<open>u\<close> flag) all
  count code units. A code unit is modelled by its number, a string by the list of its code
  units; \<open>js\<close> turns an ASCII literal into such a list.
\<close>

type_synonym jsstring = "nat list"

definition js :: "string \<Rightarrow> jsstring" where
  "js s = map of_char s"

text \<open>Template-literal rendering of a non-negative integer, \<open>`${counter}`\<close>.\<close>

function numberToString :: "nat \<Rightarrow> jsstring" where
  "numberToString n =
     (if n < 10 then [48 + n] else numberToString (n div 10) @ [48 + n mod 10])"
  by pat_completeness auto
termination
  by (relation "measure (\<lambda>n. n)") auto

declare numberToString.simps [simp del]

text \<open>
  Exceptions. The sources throw plain \<open>Error\<close> objects and, in the language-model client,
  \<open>GrokAPIError\<close> objects that carry an optional HTTP status; no other error class is
  declared anywhere in the repository. \<open>TypeError\<close> is what the engine throws when a
  property of \<open>undefined\<close> is read. \<open>errorName\<close> is the \<open>name\<close> property and
  \<open>errorMessage\<close> the \<open>message\<close> property.
\<close>

datatype js_error = Error jsstring | TypeError jsstring | GrokAPIError jsstring "nat option"

fun errorMessage :: "js_error \<Rightarrow> jsstring" where
  "errorMessage (Error m) = m"
| "errorMessage (TypeError m) = m"
| "errorMessage (GrokAPIError m st) = m"

fun errorName :: "js_error \<Rightarrow> jsstring" where
  "errorName (Error m) = js ''Error''"
| "errorName (TypeError m) = js ''TypeError''"
| "errorName (GrokAPIError m st) = js ''GrokAPIError''"

text \<open>\<open>parts.join(sep)\<close>.\<close>

fun joinWith :: "jsstring \<Rightarrow> jsstring list \<Rightarrow> jsstring" where
  "joinWith sep [] = []"
| "joinWith sep [x] = x"
| "joinWith sep (x # y # zs) = x @ sep @ joinWith sep (y # zs)"

text \<open>Character classes of the regular expressions: \<open>[0-9]\<close>, \<open>[a-zA-Z0-9]\<close>, \<open>\w\<close>, \<open>\s\<close>.\<close>

definition isDigit :: "nat \<Rightarrow> bool" where
  "isDigit c = (48 \<le> c \<and> c \<le> 57)"

definition isAlpha :: "nat \<Rightarrow> bool" where
  "isAlpha c = ((65 \<le> c \<and> c \<le> 90) \<or> (97 \<le> c \<and> c \<le> 122))"

definition isAlnum :: "nat \<Rightarrow> bool" where
  "isAlnum c = (isAlpha c \<or> isDigit c)"

definition isWordChar :: "nat \<Rightarrow> bool" where
  "isWordChar c = (isAlnum c \<or> c = 95)"

text \<open>
  \<open>\s\<close>, which is also what \<open>trim()\<close> removes: tab, line feed, vertical tab, form feed,
  carriage return, space, U+00A0, U+1680, U+2000 to U+200A, U+2028, U+2029, U+202F, U+205F,
  U+3000 and U+FEFF.
\<close>

definition isSpace :: "nat \<Rightarrow> bool" where
  "isSpace c = ((9 \<le> c \<and> c \<le> 13) \<or> c = 32 \<or> c = 160 \<or> c = 5760 \<or> (8192 \<le> c \<and> c \<le> 8202)
     \<or> c = 8232 \<or> c = 8233 \<or> c = 8239 \<or> c = 8287 \<or> c = 12288 \<or> c = 65279)"

definition trimStart :: "(nat \<Rightarrow> bool) \<Rightarrow> jsstring \<Rightarrow> jsstring" where
  "trimStart P s = dropWhile P s"

definition trimEnd :: "(nat \<Rightarrow> bool) \<Rightarrow> jsstring \<Rightarrow> jsstring" where
  "trimEnd P s = rev (dropWhile P (rev s))"

definition trim :: "jsstring \<Rightarrow> jsstring" where
  "trim s = trimEnd isSpace (trimStart isSpace s)"

text \<open>\<open>hay.includes(needle)\<close> (\<open>includes\<close> is reserved, hence the suffix) and \<open>s.startsWith(p)\<close>.\<close>

fun includesStr :: "jsstring \<Rightarrow> jsstring \<Rightarrow> bool" where
  "includesStr [] needle = (needle = [])"
| "includesStr (c # cs) needle = (prefix needle (c # cs) \<or> includesStr cs needle)"

definition startsWith :: "jsstring \<Rightarrow> jsstring \<Rightarrow> bool" where
  "startsWith s p = prefix p s"

text \<open>
  \<open>toLowerCase()\<close>. On U+0000 to U+00FF the mapping is written out: A to Z, and the Latin-1
  capitals U+00C0 to U+00DE except the multiplication sign U+00D7. Above U+00FF the two
  code units whose lower case contains an ASCII letter are written out as well (U+0130
  becomes \<open>i\<close> followed by U+0307, the Kelvin sign U+212A becomes \<open>k\<close>). Every other code
  unit above U+00FF is mapped by the engine's Unicode table to code units that are again
  neither ASCII nor white space; that table is not part of the repository and the model
  leaves those code units unchanged.
\<close>

definition lowerUnit :: "nat \<Rightarrow> jsstring" where
  "lowerUnit c =
     (if 65 \<le> c \<and> c \<le> 90 then [c + 32]
      else if 192 \<le> c \<and> c \<le> 222 \<and> c \<noteq> 215 then [c + 32]
      else if c = 304 then [105, 775]
      else if c = 8490 then [107]
      else [c])"

definition toLowerCase :: "jsstring \<Rightarrow> jsstring" where
  "toLowerCase s = concat (map lowerUnit s)"

text \<open>
  Replacement by a global regular expression of the two shapes the sources use on character
  classes: \<open>s.replace(/[class]/g, r)\<close> replaces every code unit of the class, and
  \<open>s.replace(/[class]+/g, r)\<close> replaces every maximal run of the class (the flag of
  \<open>replaceRunsFrom\<close> records that the previous code unit belonged to a run already replaced).
\<close>

definition replaceEach :: "(nat \<Rightarrow> bool) \<Rightarrow> jsstring \<Rightarrow> jsstring \<Rightarrow> jsstring" where
  "replaceEach P r s = concat (map (\<lambda>c. if P c then r else [c]) s)"

fun replaceRunsFrom :: "(nat \<Rightarrow> bool) \<Rightarrow> jsstring \<Rightarrow> bool \<Rightarrow> jsstring \<Rightarrow> jsstring" where
  "replaceRunsFrom P r inRun [] = []"
| "replaceRunsFrom P r inRun (c # cs) =
     (if P c then (if inRun then [] else r) @ replaceRunsFrom P r True cs
      else c # replaceRunsFrom P r False cs)"

definition replaceRuns :: "(nat \<Rightarrow> bool) \<Rightarrow> jsstring \<Rightarrow> jsstring \<Rightarrow> jsstring" where
  "replaceRuns P r s = replaceRunsFrom P r False s"

text \<open>
  \<open>s.replace(/<[^>]*>/g, '')\<close>: a \<open><\<close> that is followed somewhere by a \<open>>\<close> is removed
  together with everything up to and including the first such \<open>>\<close>.
\<close>

fun stripTags :: "jsstring \<Rightarrow> jsstring"
  and skipTag :: "jsstring \<Rightarrow> jsstring" where
  "stripTags [] = []"
| "stripTags (c # cs) = (if c = 60 \<and> 62 \<in> set cs then skipTag cs else c # stripTags cs)"
| "skipTag [] = []"
| "skipTag (c # cs) = (if c = 62 then stripTags cs else skipTag cs)"

text \<open>\<open>s.lastIndexOf(c)\<close> for a single character; \<open>None\<close> stands for \<open>-1\<close>.\<close>

definition lastIndexOf :: "nat \<Rightarrow> jsstring \<Rightarrow> nat option" where
  "lastIndexOf c s =
     (if c \<in> set s then Some (length s - 1 - length (takeWhile (\<lambda>x. x \<noteq> c) (rev s))) else None)"

text \<open>\<open>s.charAt(i)\<close>: the empty string when the index is out of range.\<close>

definition charAt :: "jsstring \<Rightarrow> nat \<Rightarrow> jsstring" where
  "charAt s i = (if i < length s then [s ! i] else [])"

section \<open>utils/slug-sanitizer.js\<close>

text \<open>
  \<open>generateRandomString(length)\<close>. The values \<open>Math.floor(Math.random() * chars.length)\<close>
  drawn by the loop are the parameter \<open>draws\<close>, one per iteration.
\<close>

definition randomChars :: jsstring where
  "randomChars = js ''abcdefghijklmnopqrstuvwxyz0123456789''"

definition generateRandomString :: "nat \<Rightarrow> nat list \<Rightarrow> jsstring" where
  "generateRandomString n draws = concat (map (charAt randomChars) (take n draws))"

text \<open>What \<open>Math.random\<close> can deliver for a string of \<open>n\<close> characters.\<close>

definition validDraws :: "nat \<Rightarrow> nat list \<Rightarrow> bool" where
  "validDraws n draws = (length draws = n \<and> list_all (\<lambda>d. d < 36) draws)"

definition diacriticsMap :: "(nat \<times> jsstring) list" where
  "diacriticsMap =
     [(192, js ''A''), (193, js ''A''), (194, js ''A''), (195, js ''A''), (196, js ''A''),
      (197, js ''A''), (198, js ''AE''), (199, js ''C''), (200, js ''E''), (201, js ''E''),
      (202, js ''E''), (203, js ''E''), (204, js ''I''), (205, js ''I''), (206, js ''I''),
      (207, js ''I''), (208, js ''D''), (209, js ''N''), (210, js ''O''), (211, js ''O''),
      (212, js ''O''), (213, js ''O''), (214, js ''O''), (216, js ''O''), (217, js ''U''),
      (218, js ''U''), (219, js ''U''), (220, js ''U''), (221, js ''Y''), (222, js ''TH''),
      (223, js ''ss''), (224, js ''a''), (225, js ''a''), (226, js ''a''), (227, js ''a''),
      (228, js ''a''), (229, js ''a''), (230, js ''ae''), (231, js ''c''), (232, js ''e''),
      (233, js ''e''), (234, js ''e''), (235, js ''e''), (236, js ''i''), (237, js ''i''),
      (238, js ''i''), (239, js ''i''), (240, js ''d''), (241, js ''n''), (242, js ''o''),
      (243, js ''o''), (244, js ''o''), (245, js ''o''), (246, js ''o''), (248, js ''o''),
      (249, js ''u''), (250, js ''u''), (251, js ''u''), (252, js ''u''), (253, js ''y''),
      (254, js ''th''), (255, js ''y'')]"

text \<open>\<open>str.replace(/[^\u0000-\u007E]/g, char => diacriticsMap[char] || char)\<close>.\<close>

definition stripDiacritics :: "jsstring \<Rightarrow> jsstring" where
  "stripDiacritics str =
     concat (map (\<lambda>c. if 126 < c then (case map_of diacriticsMap c of Some r \<Rightarrow> r | None \<Rightarrow> [c])
                        else [c]) str)"

definition reservedWords :: "jsstring list" where
  "reservedWords = map js
     [''api'', ''admin'', ''auth'', ''login'', ''logout'', ''register'', ''dashboard'',
      ''static'', ''assets'', ''public'', ''images'', ''css'', ''js'', ''robots.txt'',
      ''sitemap.xml'', ''favicon.ico'', ''manifest.json'',
      ''search'', ''about'', ''contact'', ''help'', ''privacy'', ''terms'', ''stats'',
      ''health'', ''status'', ''ping'', ''metrics'', ''sitemap'', ''feed'', ''rss'',
      ''www'', ''mail'', ''ftp'', ''localhost'', ''test'', ''staging'', ''dev'', ''demo'',
      ''blog'', ''news'', ''posts'', ''post'', ''page'', ''pages'', ''user'', ''users'',
      ''profile'', ''settings'', ''config'', ''system'', ''internal'', ''external'',
      ''get'', ''post'', ''put'', ''patch'', ''delete'', ''head'', ''options'', ''trace'',
      ''connect'', ''webhook'', ''callback'', ''oauth'', ''token'', ''refresh'',
      ''db'', ''database'', ''sql'', ''query'', ''index'', ''cache'', ''session'',
      ''cookie'', ''cors'', ''csrf'', ''xss'', ''injection'', ''exploit'',
      ''html'', ''htm'', ''xml'', ''json'', ''txt'', ''pdf'', ''jpg'', ''jpeg'', ''png'',
      ''gif'', ''svg'', ''ico'', ''css'', ''js'', ''php'', ''asp'', ''jsp'']"

definition isReservedSlug :: "jsstring \<Rightarrow> bool" where
  "isReservedSlug slug = (toLowerCase slug \<in> set reservedWords)"

text \<open>
  The options of \<open>generateSlug\<close>. A key of \<open>customReplacements\<close> is the source of a regular
  expression; every key the repository passes (in \<open>cleanUserSlug\<close>) matches one literal
  character, and the model takes that character as the key.
\<close>

record slug_options =
  maxLength :: nat
  lowercase :: bool
  stripDiacriticsOpt :: bool
  allowUnicode :: bool
  customReplacements :: "(nat \<times> jsstring) list"

definition defaultOptions :: slug_options where
  "defaultOptions = \<lparr> maxLength = 80, lowercase = True, stripDiacriticsOpt = True,
     allowUnicode = False, customReplacements = [] \<rparr>"

definition applyCustomReplacements :: "(nat \<times> jsstring) list \<Rightarrow> jsstring \<Rightarrow> jsstring" where
  "applyCustomReplacements reps s = foldl (\<lambda>acc (find, rep). replaceEach (\<lambda>c. c = find) rep acc) s reps"

text \<open>The character class \<open>[\w\-\.~]\<close> of the "special characters" step.\<close>

definition isKept :: "nat \<Rightarrow> bool" where
  "isKept c = (isWordChar c \<or> c = 45 \<or> c = 46 \<or> c = 126)"

text \<open>
  The body of \<open>generateSlug\<close> up to and including the two "starts and ends with alphanumeric
  characters" replacements, that is, everything before the length is looked at.
\<close>

definition normalizeSlug :: "slug_options \<Rightarrow> jsstring \<Rightarrow> jsstring" where
  "normalizeSlug config text =
     (let slug = applyCustomReplacements (customReplacements config) text;
          slug = stripTags slug;
          slug = (if stripDiacriticsOpt config then stripDiacritics slug else slug);
          slug = (if lowercase config then toLowerCase slug else slug);
          slug = replaceRuns (\<lambda>c. isSpace c \<or> c = 95) (js ''-'') slug;
          slug = replaceRuns (\<lambda>c. c = 45) (js ''-'') slug;
          slug = replaceEach (\<lambda>c. \<not> isKept c) (if allowUnicode config then [] else js ''-'') slug;
          slug = trimEnd (\<lambda>c. c = 45 \<or> c = 46) (trimStart (\<lambda>c. c = 45 \<or> c = 46) slug);
          slug = replaceRuns (\<lambda>c. c = 45) (js ''-'') slug;
          slug = trimStart (\<lambda>c. \<not> isAlnum c) slug;
          slug = trimEnd (\<lambda>c. \<not> isAlnum c) slug
      in slug)"

text \<open>
  "Trim to max length". The test \<open>lastDash > config.maxLength * 0.7\<close> is a floating-point
  comparison; for the two lengths the repository uses, 80 and 60, the product is exactly 56
  and 42, and the model compares \<open>10 * lastDash\<close> with \<open>7 * maxLength\<close>.
\<close>

definition truncateSlug :: "nat \<Rightarrow> jsstring \<Rightarrow> jsstring" where
  "truncateSlug maxLen slug =
     (if length slug > maxLen then
        (let cut = take maxLen slug in
         case lastIndexOf 45 cut of
           None \<Rightarrow> cut
         | Some lastDash \<Rightarrow> if 10 * lastDash > 7 * maxLen then take lastDash cut else cut)
      else slug)"

definition generateSlug :: "slug_options \<Rightarrow> nat list \<Rightarrow> jsstring \<Rightarrow> js_error + jsstring" where
  "generateSlug config draws text =
     (if text = [] then Inl (Error (js ''generateSlug requires a non-empty string''))
      else
        (let slug = truncateSlug (maxLength config) (normalizeSlug config text) in
         if length slug < 3 then Inr (js ''post-'' @ generateRandomString 6 draws)
         else Inr slug))"

record validation =
  isValid :: bool
  errors :: "jsstring list"

text \<open>The character class \<open>[a-zA-Z0-9\-\.~]\<close> of \<open>validateSlug\<close>.\<close>

definition isSlugChar :: "nat \<Rightarrow> bool" where
  "isSlugChar c = (isAlnum c \<or> c = 45 \<or> c = 46 \<or> c = 126)"

definition validateSlug :: "jsstring \<Rightarrow> validation" where
  "validateSlug slug =
     (if slug = [] then \<lparr> isValid = False, errors = [js ''Slug must be a non-empty string''] \<rparr>
      else
        (let errs =
           (if length slug < 3 then [js ''Slug must be at least 3 characters long''] else []) @
           (if length slug > 80 then [js ''Slug must be no more than 80 characters long''] else []) @
           (if \<not> list_all isSlugChar slug
            then [js ''Slug contains invalid characters (only letters, numbers, hyphens, dots, and tildes allowed)'']
            else []) @
           (if \<not> isAlnum (hd slug) then [js ''Slug must start with a letter or number''] else []) @
           (if \<not> isAlnum (last slug) then [js ''Slug must end with a letter or number''] else []) @
           (if includesStr slug (js ''--'') then [js ''Slug cannot contain consecutive hyphens''] else []) @
           (if isReservedSlug slug then [js ''Slug cannot be a reserved word''] else [])
         in \<lparr> isValid = (errs = []), errors = errs \<rparr>))"

text \<open>\<open>titleToSlug\<close> and \<open>cleanUserSlug\<close>; the latter is what the command handler imports as
  \<open>sanitizeSlug\<close>.\<close>

definition titleToSlug :: "nat list \<Rightarrow> jsstring \<Rightarrow> js_error + jsstring" where
  "titleToSlug draws title = generateSlug (defaultOptions \<lparr> maxLength := 60 \<rparr>) draws title"

definition cleanUserSlug :: "nat list \<Rightarrow> jsstring \<Rightarrow> js_error + jsstring" where
  "cleanUserSlug draws userInput =
     (if userInput = [] then Inr []
      else generateSlug
             (defaultOptions \<lparr> customReplacements :=
                [(38, js ''and''), (64, js ''at''), (35, js ''hash''), (37, js ''percent''),
                 (36, js ''dollar''), (43, js ''plus''), (61, js ''equals'')] \<rparr>)
             draws userInput)"

text \<open>
  \<open>generateUniqueSlug(baseSlug, existsCallback)\<close>. The callback is the existence predicate;
  the \<open>typeof existsCallback !== 'function'\<close> guard is excluded by the type. Besides the
  slug the loop returns the list of candidates the callback was invoked on, in order.
\<close>

definition maxAttempts :: nat where
  "maxAttempts = 100"

text \<open>The numbered candidate \<open>`${baseSlug}-${counter}`\<close>.\<close>

definition numbered :: "jsstring \<Rightarrow> nat \<Rightarrow> jsstring" where
  "numbered baseSlug n = baseSlug @ js ''-'' @ numberToString n"

function uniqueLoop ::
  "(jsstring \<Rightarrow> bool) \<Rightarrow> nat list \<Rightarrow> jsstring \<Rightarrow> jsstring \<Rightarrow> nat \<Rightarrow> jsstring list
     \<Rightarrow> jsstring \<times> jsstring list" where
  "uniqueLoop existsCallback draws baseSlug slug counter asked =
     (if existsCallback slug then
        (if counter > maxAttempts
         then (baseSlug @ js ''-'' @ generateRandomString 8 draws, asked @ [slug])
         else uniqueLoop existsCallback draws baseSlug
                (numbered baseSlug counter) (counter + 1) (asked @ [slug]))
      else (slug, asked @ [slug]))"
  by pat_completeness auto
termination
  by (relation "measure (\<lambda>(existsCallback, draws, baseSlug, slug, counter, asked).
        Suc maxAttempts - counter)") auto

declare uniqueLoop.simps [simp del]

definition generateUniqueSlugTraced ::
  "(jsstring \<Rightarrow> bool) \<Rightarrow> nat list \<Rightarrow> jsstring \<Rightarrow> jsstring \<times> jsstring list" where
  "generateUniqueSlugTraced existsCallback draws baseSlug =
     uniqueLoop existsCallback draws baseSlug baseSlug 1 []"

definition generateUniqueSlug :: "(jsstring \<Rightarrow> bool) \<Rightarrow> nat list \<Rightarrow> jsstring \<Rightarrow> jsstring" where
  "generateUniqueSlug existsCallback draws baseSlug =
     fst (generateUniqueSlugTraced existsCallback draws baseSlug)"

section \<open>utils/security.js: escapeHTML and unescapeHTML\<close>

text \<open>
  \<open>escapeHTML(text)\<close>: \<open>text.replace(/[&<>"'\/]/g, char => htmlEscapes[char])\<close>. The guard
  \<open>!text || typeof text !== 'string'\<close> returns the empty string for the empty string, which
  is what the replacement yields as well; other types are excluded by the type.
\<close>

definition htmlEscapes :: "nat \<Rightarrow> jsstring" where
  "htmlEscapes c =
     (if c = 38 then js ''&amp;''
      else if c = 60 then js ''&lt;''
      else if c = 62 then js ''&gt;''
      else if c = 34 then js ''&quot;''
      else if c = 39 then js ''&#39;''
      else if c = 47 then js ''&#x2F;''
      else [c])"

definition escapeHTML :: "jsstring \<Rightarrow> jsstring" where
  "escapeHTML text = concat (map htmlEscapes text)"

text \<open>
  \<open>unescapeHTML(text)\<close>:
  \<open>text.replace(/&(?:amp|lt|gt|quot|#39|#x2F);/g, entity => htmlUnescapes[entity] || entity)\<close>.
  The scan goes from left to right; where one of the six entities starts it is replaced by
  its character and the scan continues behind it, elsewhere the code unit is copied.
\<close>

fun unescapeHTML :: "jsstring \<Rightarrow> jsstring" where
  "unescapeHTML [] = []"
| "unescapeHTML (c # cs) =
     (if prefix (js ''&amp;'') (c # cs) then 38 # unescapeHTML (drop 4 cs)
      else if prefix (js ''&lt;'') (c # cs) then 60 # unescapeHTML (drop 3 cs)
      else if prefix (js ''&gt;'') (c # cs) then 62 # unescapeHTML (drop 3 cs)
      else if prefix (js ''&quot;'') (c # cs) then 34 # unescapeHTML (drop 5 cs)
      else if prefix (js ''&#39;'') (c # cs) then 39 # unescapeHTML (drop 4 cs)
      else if prefix (js ''&#x2F;'') (c # cs) then 47 # unescapeHTML (drop 5 cs)
      else c # unescapeHTML cs)"

section \<open>ai/grok-client.js\<close>

text \<open>
  What one \<open>this.client.post\<close> can come to: a response, an error that carries an HTTP
  status (with the \<open>error.message\<close> of its body, if it has one), an error that carries a
  request but no response, or an error raised while the request was set up. The response
  interceptor turns each error into a \<open>GrokAPIError\<close>.
\<close>

datatype 'r post_result =
    Responded 'r
  | Status nat "jsstring option"
  | NoResponse
  | SetupFailed jsstring

fun interceptor :: "'r post_result \<Rightarrow> js_error + 'r" where
  "interceptor (Responded r) = Inr r"
| "interceptor (Status st msg) =
     Inl (GrokAPIError (js ''API request failed: '' @ numberToString st @ js '' - '' @
            (case msg of Some m \<Rightarrow> if m = [] then js ''Unknown error'' else m
                       | None \<Rightarrow> js ''Unknown error''))
            (Some st))"
| "interceptor NoResponse = Inl (GrokAPIError (js ''Network error: No response received from API'') None)"
| "interceptor (SetupFailed m) = Inl (GrokAPIError (js ''Request setup error: '' @ m) None)"

definition maxRetries :: nat where
  "maxRetries = 3"

definition retryDelay :: nat where
  "retryDelay = 1000"

fun shouldRetry :: "js_error \<Rightarrow> bool" where
  "shouldRetry (GrokAPIError m st) = (st = Some 429 \<or> st = Some 502 \<or> st = Some 503 \<or> st = Some 504)"
| "shouldRetry (Error m) = False"
| "shouldRetry (TypeError m) = False"

text \<open>
  \<open>makeRequest(endpoint, data, retries = 0)\<close>. The outcomes of the successive posts are the
  stream \<open>posts\<close>, and \<open>k\<close> is the number of posts made before this call. The result
  records what is returned or thrown, how many posts this call made, and the delays it
  slept, in milliseconds and in order.
\<close>

record 'r request_outcome =
  outcome :: "js_error + 'r"
  attempts :: nat
  sleeps :: "nat list"

function makeRequest :: "(nat \<Rightarrow> 'r post_result) \<Rightarrow> nat \<Rightarrow> nat \<Rightarrow> 'r request_outcome" where
  "makeRequest posts k retries =
     (case interceptor (posts k) of
        Inr response \<Rightarrow> \<lparr> outcome = Inr response, attempts = 1, sleeps = [] \<rparr>
      | Inl error \<Rightarrow>
          (if retries < maxRetries \<and> shouldRetry error then
             (let delay = retryDelay * 2 ^ retries;
                  later = makeRequest posts (k + 1) (retries + 1)
              in \<lparr> outcome = outcome later, attempts = 1 + attempts later,
                    sleeps = delay # sleeps later \<rparr>)
           else \<lparr> outcome = Inl error, attempts = 1, sleeps = [] \<rparr>))"
  by pat_completeness auto
termination
  by (relation "measure (\<lambda>(posts, k, retries). maxRetries - retries)") auto

declare makeRequest.simps [simp del]

text \<open>Three responses with status 503 followed by a successful one, and 503 for ever.\<close>

definition threeOutages :: "nat \<Rightarrow> unit post_result" where
  "threeOutages i = (if i < 3 then Status 503 None else Responded ())"

definition alwaysOut :: "nat \<Rightarrow> unit post_result" where
  "alwaysOut i = Status 503 None"

text \<open>
  The body of a successful response, as far as \<open>analyzeContent\<close> reads it. A property of
  the parsed object is \<open>Absent\<close> when it is a falsy value that is no string (\<open>undefined\<close>,
  \<open>null\<close>, \<open>false\<close>, \<open>0\<close>), \<open>Other\<close> when it is a truthy value that is no string, and
  \<open>Text\<close> when it is a string. \<open>Unreadable\<close> stands for a response on which a property
  access throws (no \<open>message\<close> in the first choice, or a content that parses to \<open>null\<close>),
  with the message of that \<open>TypeError\<close>.
\<close>

datatype field_value = Absent | Other | Text jsstring

datatype api_response =
    NoChoices
  | Unreadable jsstring
  | EmptyContent
  | InvalidJson jsstring
  | Parsed field_value field_value field_value

fun falsy :: "field_value \<Rightarrow> bool" where
  "falsy Absent = True"
| "falsy Other = False"
| "falsy (Text s) = (s = [])"

fun isText :: "field_value \<Rightarrow> bool" where
  "isText (Text s) = True"
| "isText Absent = False"
| "isText Other = False"

fun textOf :: "field_value \<Rightarrow> jsstring" where
  "textOf (Text s) = s"
| "textOf Absent = []"
| "textOf Other = []"

text \<open>The test \<open>/^[a-z0-9-]+$/\<close> that both the client and the post model apply to a slug.\<close>

definition isPlainSlugChar :: "nat \<Rightarrow> bool" where
  "isPlainSlugChar c = ((97 \<le> c \<and> c \<le> 122) \<or> isDigit c \<or> c = 45)"

definition isPlainSlug :: "jsstring \<Rightarrow> bool" where
  "isPlainSlug s = (s \<noteq> [] \<and> list_all isPlainSlugChar s)"

text \<open>
  \<open>generateFallbackSlug(title)\<close> of the client and \<open>generateSlugFromTitle(title)\<close> of the
  content analyzer have the same body. \<open>trim('-')\<close> is \<open>trim()\<close>: the argument is ignored.
\<close>

definition generateSlugFromTitle :: "jsstring \<Rightarrow> jsstring" where
  "generateSlugFromTitle title =
     (if title = [] \<or> trim title = [] then js ''untitled-post''
      else
        (let s = toLowerCase title;
             s = replaceEach (\<lambda>c. \<not> ((97 \<le> c \<and> c \<le> 122) \<or> isDigit c \<or> isSpace c \<or> c = 45)) [] s;
             s = replaceRuns isSpace (js ''-'') s;
             s = replaceRuns (\<lambda>c. c = 45) (js ''-'') s;
             s = trim s;
             s = take 50 s
         in if s = [] then js ''untitled-post'' else s))"

definition generateFallbackSlug :: "jsstring \<Rightarrow> jsstring" where
  "generateFallbackSlug title = generateSlugFromTitle title"

record metadata =
  metaSlug :: jsstring
  metaTitle :: jsstring
  metaDescription :: jsstring

text \<open>
  \<open>GrokClient.analyzeContent(htmlContent, options)\<close>. The second component is the number of
  posts made. The prompt and the sampling options only shape the request and have no
  influence on what the function does with the response.
\<close>

definition readResponse :: "api_response \<Rightarrow> js_error + metadata" where
  "readResponse response =
     (case response of
        NoChoices \<Rightarrow> Inl (GrokAPIError (js ''No response choices received from API'') None)
      | Unreadable m \<Rightarrow> Inl (GrokAPIError (js ''Content analysis failed: '' @ m) None)
      | EmptyContent \<Rightarrow> Inl (GrokAPIError (js ''Empty response content from API'') None)
      | InvalidJson m \<Rightarrow> Inl (GrokAPIError (js ''Failed to parse JSON response: '' @ m) None)
      | Parsed slug title description \<Rightarrow>
          (let missingFields = map fst (filter (\<lambda>(name, v). falsy v)
                 [(js ''slug'', slug), (js ''title'', title), (js ''description'', description)])
           in if missingFields \<noteq> [] then
                Inl (GrokAPIError (js ''Missing required fields in response: '' @
                       joinWith (js '', '') missingFields) None)
              else if \<not> isText slug \<or> \<not> isText title \<or> \<not> isText description then
                Inl (GrokAPIError (js ''All metadata fields must be strings'') None)
              else
                Inr \<lparr> metaSlug = (if isPlainSlug (textOf slug) then textOf slug
                                   else generateFallbackSlug (textOf title)),
                      metaTitle = textOf title,
                      metaDescription = textOf description \<rparr>))"

definition clientAnalyzeContent ::
  "(nat \<Rightarrow> api_response post_result) \<Rightarrow> nat \<Rightarrow> jsstring \<Rightarrow> (js_error + metadata) \<times> nat" where
  "clientAnalyzeContent posts k htmlContent =
     (if htmlContent = [] \<or> trim htmlContent = [] then
        (Inl (Error (js ''HTML content is required'')), 0)
      else
        (let request = makeRequest posts k 0 in
         case outcome request of
           Inl error \<Rightarrow> (Inl error, attempts request)
         | Inr response \<Rightarrow> (readResponse response, attempts request)))"

section \<open>ai/content-analyzer.js\<close>

text \<open>
  The two libraries the analyzer calls, DOMPurify and JSDOM, are not part of the
  repository. \<open>purify\<close> is \<open>purify.sanitize(htmlContent, config)\<close> for the configuration of
  \<open>sanitizeHTML\<close> and \<open>bodyText\<close> is the \<open>textContent\<close> of the body of the parsed document;
  \<open>None\<close> means that the library threw.
\<close>

record libraries =
  purify :: "jsstring \<Rightarrow> jsstring option"
  bodyText :: "jsstring \<Rightarrow> jsstring option"

text \<open>\<open>ContentAnalyzer.sanitizeHTML\<close> (the name \<open>sanitizeHTML\<close> is kept for the function of
  \<open>utils/security.js\<close>).\<close>

definition analyzerSanitizeHTML :: "libraries \<Rightarrow> jsstring \<Rightarrow> jsstring" where
  "analyzerSanitizeHTML libs htmlContent =
     (case purify libs htmlContent of Some clean \<Rightarrow> clean | None \<Rightarrow> htmlContent)"

definition extractTextContent :: "libraries \<Rightarrow> jsstring \<Rightarrow> jsstring" where
  "extractTextContent libs htmlContent =
     (case bodyText libs htmlContent of
        Some textContent \<Rightarrow> trim textContent
      | None \<Rightarrow> trim (stripTags htmlContent))"

text \<open>
  \<open>content.split(/[.!?]+/)\<close>: the pieces between the maximal runs of the separators. The
  flag records that the previous code unit was a separator.
\<close>

fun splitRunsFrom :: "(nat \<Rightarrow> bool) \<Rightarrow> jsstring \<Rightarrow> bool \<Rightarrow> jsstring \<Rightarrow> jsstring list" where
  "splitRunsFrom P piece inRun [] = [piece]"
| "splitRunsFrom P piece inRun (c # cs) =
     (if P c then (if inRun then splitRunsFrom P [] True cs
                   else piece # splitRunsFrom P [] True cs)
      else splitRunsFrom P (piece @ [c]) False cs)"

definition splitRuns :: "(nat \<Rightarrow> bool) \<Rightarrow> jsstring \<Rightarrow> jsstring list" where
  "splitRuns P s = splitRunsFrom P [] False s"

definition generateDescriptionFromContent :: "jsstring \<Rightarrow> jsstring" where
  "generateDescriptionFromContent content =
     (if content = [] \<or> trim content = [] then js ''User-generated content shared via Discord''
      else
        (let sentences = filter (\<lambda>s. length (trim s) > 10)
                           (splitRuns (\<lambda>c. c = 46 \<or> c = 33 \<or> c = 63) content)
         in case sentences of
              first # others \<Rightarrow>
                (let description = trim first
                 in if length description > 157 then take 154 description @ js ''...''
                    else description)
            | [] \<Rightarrow> (if length content > 157 then take 154 content @ js ''...'' else content)))"

text \<open>
  The result of \<open>analyzeContent\<close>. Of its properties the model keeps the three that are
  stored and the name of the analyzer, which tells the two paths apart; the others (word
  count, reading time, features, tags, time stamps) are computed from the same strings by
  functions without a \<open>throw\<close> and are not read by anything modelled here.
\<close>

record analysis =
  analysisSlug :: jsstring
  analysisTitle :: jsstring
  analysisDescription :: jsstring
  analyzer :: jsstring

definition postProcessAnalysis :: "metadata \<Rightarrow> jsstring \<Rightarrow> jsstring \<Rightarrow> analysis" where
  "postProcessAnalysis found extractedContent fallbackTitle =
     (let slug = (if isPlainSlug (metaSlug found) then metaSlug found
                  else generateSlugFromTitle
                         (if metaTitle found = [] then fallbackTitle else metaTitle found));
          title = (if metaTitle found = [] then fallbackTitle else metaTitle found);
          title = (if length title > 60 then take 57 title @ js ''...'' else title);
          description = (if metaDescription found = []
                         then generateDescriptionFromContent extractedContent
                         else metaDescription found);
          description = (if length description > 160 then take 157 description @ js ''...''
                         else description)
      in \<lparr> analysisSlug = slug, analysisTitle = title, analysisDescription = description,
           analyzer = js ''grok-content-analyzer'' \<rparr>)"

definition generateFallbackMetadata :: "libraries \<Rightarrow> jsstring \<Rightarrow> jsstring \<Rightarrow> analysis" where
  "generateFallbackMetadata libs htmlContent fallbackTitle =
     (let extractedContent = extractTextContent libs htmlContent
      in \<lparr> analysisSlug = generateSlugFromTitle fallbackTitle,
           analysisTitle = fallbackTitle,
           analysisDescription = generateDescriptionFromContent extractedContent,
           analyzer = js ''fallback-analyzer'' \<rparr>)"

text \<open>
  The options of \<open>analyzeContent\<close> that bear on the result. \<open>contentType\<close> selects a prompt
  and \<open>discordUser\<close> is copied into the result; neither is modelled.
\<close>

record analyze_options =
  skipSanitization :: bool
  fallbackTitle :: jsstring
  analysisRetries :: nat

text \<open>
  The \<open>while (attempt <= maxRetries)\<close> loop around the client call. When the loop is left
  without a result, \<open>analysis\<close> is still \<open>undefined\<close> and reading its \<open>slug\<close> throws. The
  second component is the number of posts made so far.
\<close>

function analysisLoop ::
  "(nat \<Rightarrow> api_response post_result) \<Rightarrow> nat \<Rightarrow> jsstring \<Rightarrow> nat \<Rightarrow> nat
     \<Rightarrow> (js_error + metadata) \<times> nat" where
  "analysisLoop posts k sanitizedContent retries attempt =
     (if attempt \<le> retries then
        (case clientAnalyzeContent posts k sanitizedContent of
           (Inr found, used) \<Rightarrow> (Inr found, k + used)
         | (Inl error, used) \<Rightarrow>
             (if attempt = retries then (Inl error, k + used)
              else analysisLoop posts (k + used) sanitizedContent retries (attempt + 1)))
      else (Inl (TypeError (js ''Cannot read properties of undefined (reading '' @ [39] @
               js ''slug'' @ [39] @ js '')'')), k))"
  by pat_completeness auto
termination
  by (relation "measure (\<lambda>(posts, k, sanitizedContent, retries, attempt). Suc retries - attempt)")
     auto

declare analysisLoop.simps [simp del]

text \<open>
  \<open>ContentAnalyzer.analyzeContent(htmlContent, options)\<close>: the result or the error thrown,
  and the number of posts made.
\<close>

definition analyzeContent ::
  "libraries \<Rightarrow> (nat \<Rightarrow> api_response post_result) \<Rightarrow> jsstring \<Rightarrow> analyze_options
     \<Rightarrow> (js_error + analysis) \<times> nat" where
  "analyzeContent libs posts htmlContent options =
     (if htmlContent = [] \<or> trim htmlContent = [] then
        (Inl (Error (js ''HTML content is required'')), 0)
      else
        (let sanitizedContent = (if skipSanitization options then htmlContent
                                 else analyzerSanitizeHTML libs htmlContent);
             extractedContent = extractTextContent libs sanitizedContent
         in case analysisLoop posts 0 sanitizedContent (analysisRetries options) 0 of
              (Inr found, used) \<Rightarrow>
                (Inr (postProcessAnalysis found extractedContent (fallbackTitle options)), used)
            | (Inl error, used) \<Rightarrow>
                (Inr (generateFallbackMetadata libs htmlContent (fallbackTitle options)), used)))"

section \<open>database/models/post.js\<close>

text \<open>
  A \<open>Post\<close> object. Every property may be \<open>null\<close>; the constructor replaces each falsy
  value (\<open>undefined\<close>, the empty string, the id 0) by \<open>null\<close>. The property \<open>id\<close> is called
  \<open>postId\<close> here, \<open>id\<close> being the identity function.
\<close>

record post =
  postId :: "nat option"
  slug :: "jsstring option"
  title :: "jsstring option"
  description :: "jsstring option"
  html_content :: "jsstring option"
  discord_user_id :: "jsstring option"
  discord_username :: "jsstring option"
  created_at :: "jsstring option"
  updated_at :: "jsstring option"

definition orNull :: "jsstring option \<Rightarrow> jsstring option" where
  "orNull v = (case v of None \<Rightarrow> None | Some s \<Rightarrow> if s = [] then None else Some s)"

definition newPost :: "post \<Rightarrow> post" where
  "newPost data =
     \<lparr> postId = (case postId data of None \<Rightarrow> None | Some i \<Rightarrow> if i = 0 then None else Some i),
       slug = orNull (slug data),
       title = orNull (title data),
       description = orNull (description data),
       html_content = orNull (html_content data),
       discord_user_id = orNull (discord_user_id data),
       discord_username = orNull (discord_username data),
       created_at = orNull (created_at data),
       updated_at = orNull (updated_at data) \<rparr>"

text \<open>\<open>!this.field || this.field.trim() === ''\<close>.\<close>

definition blank :: "jsstring option \<Rightarrow> bool" where
  "blank v = (case v of None \<Rightarrow> True | Some s \<Rightarrow> s = [] \<or> trim s = [])"

definition validate :: "post \<Rightarrow> jsstring list" where
  "validate this =
     (if blank (slug this) then [js ''Slug is required''] else []) @
     (if blank (title this) then [js ''Title is required''] else []) @
     (if blank (description this) then [js ''Description is required''] else []) @
     (if blank (html_content this) then [js ''HTML content is required''] else []) @
     (if blank (discord_user_id this) then [js ''Discord user ID is required''] else []) @
     (if blank (discord_username this) then [js ''Discord username is required''] else []) @
     (case slug this of
        None \<Rightarrow> []
      | Some s \<Rightarrow> if s \<noteq> [] \<and> \<not> isPlainSlug s
                  then [js ''Slug must contain only lowercase letters, numbers, and hyphens'']
                  else [])"

text \<open>
  The \<open>posts\<close> table of \<open>001_init.sql\<close>: its rows, in insertion order, and the largest
  rowid handed out so far (\<open>id INTEGER PRIMARY KEY AUTOINCREMENT\<close>). An \<open>INSERT\<close> assigns
  the next rowid and sets both time stamps to \<open>CURRENT_TIMESTAMP\<close>, the parameter \<open>now\<close>.
\<close>

record database =
  rows :: "post list"
  sequence :: nat

text \<open>
  \<open>Post.create(data)\<close>. \<open>lastIDReported\<close> says whether the value that \<open>await dbAsync.run(...)\<close>
  resolves to carries the new rowid as \<open>lastID\<close>, which \<open>create\<close> reads next. \<open>dbAsync.run\<close>
  is \<open>promisify(db.run.bind(db))\<close> on a database of the sqlite3 package (connection.js).
  That package hands the rowid to the callback of \<open>run\<close> as \<open>this.lastID\<close> and passes no
  result, so the promise resolves to \<open>undefined\<close> and reading \<open>result.lastID\<close> throws after
  the row has been inserted: this is \<open>lastIDReported = False\<close>. \<open>True\<close> stands for a \<open>run\<close>
  that resolves to an object with \<open>lastID\<close>.
\<close>

definition slugExistsError :: "jsstring option \<Rightarrow> js_error" where
  "slugExistsError s =
     Error (js ''Post with slug '' @ [39] @ (case s of Some t \<Rightarrow> t | None \<Rightarrow> js ''null'') @ [39] @
            js '' already exists'')"

definition create :: "bool \<Rightarrow> jsstring \<Rightarrow> database \<Rightarrow> post \<Rightarrow> (js_error + post) \<times> database" where
  "create lastIDReported now db data =
     (let post = newPost data;
          validationErrors = validate post
      in if validationErrors \<noteq> [] then
           (Inl (Error (js ''Validation failed: '' @ joinWith (js '', '') validationErrors)), db)
         else
           (case find (\<lambda>row. slug row = slug post) (rows db) of
              Some existingPost \<Rightarrow> (Inl (slugExistsError (slug post)), db)
            | None \<Rightarrow>
                (let lastID = sequence db + 1;
                     row = post \<lparr> postId := Some lastID, created_at := Some now,
                                  updated_at := Some now \<rparr>;
                     db' = \<lparr> rows = rows db @ [row], sequence = lastID \<rparr>
                 in if lastIDReported then
                      (case find (\<lambda>row. postId row = Some lastID) (rows db') of
                         Some createdPost \<Rightarrow> (Inr (newPost createdPost), db')
                       | None \<Rightarrow>
                           (Inl (TypeError (js ''Cannot read properties of undefined (reading '' @
                                   [39] @ js ''id'' @ [39] @ js '')'')), db'))
                    else
                      (Inl (TypeError (js ''Cannot read properties of undefined (reading '' @
                              [39] @ js ''lastID'' @ [39] @ js '')'')), db'))))"

text \<open>The rowids in use do not exceed the largest rowid handed out.\<close>

definition wellFormed :: "database \<Rightarrow> bool" where
  "wellFormed db = list_all (\<lambda>row. case postId row of None \<Rightarrow> False | Some i \<Rightarrow> i \<le> sequence db)
                     (rows db)"

section \<open>bot/utils/file-handler.js\<close>

definition fence :: jsstring where
  "fence = [96, 96, 96]"

definition asciiLower :: "nat \<Rightarrow> nat" where
  "asciiLower c = (if 65 \<le> c \<and> c \<le> 90 then c + 32 else c)"

text \<open>A literal pattern of lower-case ASCII matched under the \<open>i\<close> flag at the start of a string.\<close>

definition startsWithCI :: "jsstring \<Rightarrow> jsstring \<Rightarrow> bool" where
  "startsWithCI s p = (map asciiLower (take (length p) s) = p)"

fun findFirst :: "(jsstring \<Rightarrow> bool) \<Rightarrow> jsstring \<Rightarrow> jsstring option" where
  "findFirst P [] = (if P [] then Some [] else None)"
| "findFirst P (c # cs) = (if P (c # cs) then Some (c # cs) else findFirst P cs)"

text \<open>
  The tail \<open>([\s\S]*?)\n?```\<close> of the two code-block expressions: the captured group is the
  shortest text after which a fence follows, directly or behind one line feed.
\<close>

fun lazyToFence :: "jsstring \<Rightarrow> jsstring option" where
  "lazyToFence [] = None"
| "lazyToFence (c # cs) =
     (if prefix fence (c # cs) \<or> (c = 10 \<and> prefix fence cs) then Some []
      else map_option ((#) c) (lazyToFence cs))"

definition afterOptionalNewline :: "jsstring \<Rightarrow> jsstring" where
  "afterOptionalNewline s = (case s of [] \<Rightarrow> [] | c # cs \<Rightarrow> if c = 10 then cs else c # cs)"

text \<open>
  \<open>content.match(/```html\n?([\s\S]*?)\n?```/i)\<close> and \<open>content.match(/```\n?([\s\S]*?)\n?```/)\<close>,
  reduced to the captured group: the match starts at the first opener, and when no fence
  follows that opener none follows a later one.
\<close>

definition fencedBlock :: "jsstring \<Rightarrow> jsstring \<Rightarrow> jsstring option" where
  "fencedBlock opener s =
     (case findFirst (\<lambda>t. startsWithCI t opener) s of
        None \<Rightarrow> None
      | Some t \<Rightarrow> lazyToFence (afterOptionalNewline (drop (length opener) t)))"

text \<open>\<open>/<[a-zA-Z][^>]*>/.test(content)\<close>.\<close>

fun hasTag :: "jsstring \<Rightarrow> bool" where
  "hasTag [] = False"
| "hasTag (c # cs) =
     ((c = 60 \<and> (case cs of [] \<Rightarrow> False | d # ds \<Rightarrow> isAlpha d \<and> 62 \<in> set ds)) \<or> hasTag cs)"

definition isValidHtml :: "jsstring \<Rightarrow> bool" where
  "isValidHtml content = (content \<noteq> [] \<and> trim content \<noteq> [] \<and> hasTag content)"

text \<open>
  \<open>content.match(/`([^`]+)`/g)\<close>, each match already without its back-ticks: a back-tick, a
  non-empty run without back-ticks, a back-tick; the scan continues behind the match.
\<close>

function inlineMatches :: "jsstring \<Rightarrow> jsstring list" where
  "inlineMatches [] = []"
| "inlineMatches (c # cs) =
     (if c = 96 \<and> takeWhile (\<lambda>x. x \<noteq> 96) cs \<noteq> [] \<and> dropWhile (\<lambda>x. x \<noteq> 96) cs \<noteq> []
      then takeWhile (\<lambda>x. x \<noteq> 96) cs # inlineMatches (tl (dropWhile (\<lambda>x. x \<noteq> 96) cs))
      else inlineMatches cs)"
  by pat_completeness auto
termination
  by (relation "measure length")
     (auto simp add: less_Suc_eq_le order_trans[OF diff_le_self length_dropWhile_le])

declare inlineMatches.simps [simp del]

definition extractFromCodeBlock :: "jsstring \<Rightarrow> jsstring option" where
  "extractFromCodeBlock messageContent =
     (let inlineCode =
            find (\<lambda>content. isValidHtml content \<and> length content > 20)
                 (map trim (inlineMatches messageContent));
          generic =
            (case fencedBlock fence messageContent of
               None \<Rightarrow> inlineCode
             | Some captured \<Rightarrow>
                 if captured \<noteq> [] \<and> isValidHtml (trim captured) then Some (trim captured)
                 else inlineCode)
      in case fencedBlock (fence @ js ''html'') messageContent of
           None \<Rightarrow> generic
         | Some captured \<Rightarrow>
             if captured \<noteq> [] \<and> isValidHtml (trim captured) then Some (trim captured)
             else generic)"

text \<open>
  The data of a successful extraction, and a message. \<open>extractFromAttachment\<close> downloads the
  file; its outcome for the first attachment, if the message has one, is part of the
  message here: \<open>Inl\<close> carries the \<open>error\<close> of an unsuccessful result.
\<close>

record content_data =
  dataContent :: jsstring
  dataType :: jsstring
  filename :: "jsstring option"

record message =
  content :: jsstring
  attachment :: "(jsstring + content_data) option"
  authorId :: jsstring
  authorUsername :: jsstring

definition extractContent :: "message \<Rightarrow> jsstring + content_data" where
  "extractContent msg =
     (case attachment msg of
        Some result \<Rightarrow> result
      | None \<Rightarrow>
          (case extractFromCodeBlock (content msg) of
             Some codeBlockContent \<Rightarrow>
               Inr \<lparr> dataContent = codeBlockContent, dataType = js ''codeblock'', filename = None \<rparr>
           | None \<Rightarrow>
               Inl (js ''No HTML content found. Please upload an HTML file or use '' @ fence @
                    js ''html code block'' @ fence)))"

section \<open>bot/commands/poop.js\<close>

text \<open>
  \<open>filename.replace(/\\.html?$/i, '')\<close>: in the source the expression is a backslash, any
  character but a line terminator, \<open>htm\<close> and an optional \<open>l\<close>, at the end of the name.
\<close>

definition isLineTerminator :: "nat \<Rightarrow> bool" where
  "isLineTerminator c = (c = 10 \<or> c = 13 \<or> c = 8232 \<or> c = 8233)"

definition stripHtmlSuffix :: "jsstring \<Rightarrow> jsstring" where
  "stripHtmlSuffix f =
     (let n = length f in
      if 6 \<le> n \<and> f ! (n - 6) = 92 \<and> \<not> isLineTerminator (f ! (n - 5)) \<and>
         map asciiLower (drop (n - 4) f) = js ''html''
      then take (n - 6) f
      else if 5 \<le> n \<and> f ! (n - 5) = 92 \<and> \<not> isLineTerminator (f ! (n - 4)) \<and>
         map asciiLower (drop (n - 3) f) = js ''htm''
      then take (n - 5) f
      else f)"

text \<open>The message of the \<open>catch\<close> block, chosen by what \<open>error.message\<close> includes.\<close>

definition duplicateReply :: jsstring where
  "duplicateReply =
     [10060] @ js '' A post with this title already exists. Please modify your content or title.''"

definition errorReply :: "js_error \<Rightarrow> jsstring" where
  "errorReply error =
     (let m = errorMessage error in
      if includesStr m (js ''Validation failed'') then
        [10060] @ js '' Invalid content format. Please check your HTML and try again.''
      else if includesStr m (js ''slug'') \<and> includesStr m (js ''exists'') then duplicateReply
      else if includesStr m (js ''API'') then
        [10060] @ js '' AI analysis service is temporarily unavailable. Please try again later.''
      else if includesStr m (js ''Database'') then
        [10060] @ js '' Database error occurred. Please contact an administrator.''
      else [10060] @ js '' Failed to process your content. Please try again.'')"

text \<open>
  Everything outside the handler: the libraries, the outcomes of the posts to the
  language-model service, the random draws, the clock of the database and what the driver
  reports.
\<close>

record world =
  installed :: libraries
  responses :: "nat \<Rightarrow> api_response post_result"
  randomDraws :: "nat list"
  currentTimestamp :: jsstring
  lastIDReported :: bool

text \<open>
  What the handler does that can be observed, in order: \<open>sendTyping\<close>, a reply with a text,
  the reply with the success embed for the created post, an edit of the processing message,
  its deletion, and the two calls into the pipeline with their arguments.
\<close>

datatype event =
    SendTyping
  | Reply jsstring
  | ReplySuccess post
  | Edit jsstring
  | DeleteProcessing
  | AnalyzeContent jsstring analyze_options
  | PostCreate post

text \<open>
  \<open>handlePoopCommand(message)\<close>: the events and the database afterwards. The calls to the
  chat platform are taken to succeed.
\<close>

definition handlePoopCommand :: "world \<Rightarrow> database \<Rightarrow> message \<Rightarrow> event list \<times> database" where
  "handlePoopCommand w db msg =
     (if \<not> startsWith (content msg) (js ''!poop'') then ([], db)
      else
        (case extractContent msg of
           Inl error \<Rightarrow> ([SendTyping, Reply ([10060] @ js '' '' @ error)], db)
         | Inr found \<Rightarrow>
             (let htmlContent = dataContent found in
              if htmlContent = [] \<or> trim htmlContent = [] then
                ([SendTyping,
                  Reply ([10060] @ js '' No HTML content found. Please upload an HTML file or use a code block with HTML content.'')],
                 db)
              else
                (let options = \<lparr> skipSanitization = False,
                                 fallbackTitle =
                                   (case filename found of
                                      None \<Rightarrow> js ''Discord Post''
                                    | Some f \<Rightarrow> if f = [] then js ''Discord Post''
                                                else stripHtmlSuffix f),
                                 analysisRetries = 2 \<rparr>;
                     started = [SendTyping,
                                Reply ([55357, 56580] @ js '' Processing your HTML content...''),
                                AnalyzeContent htmlContent options]
                 in case fst (analyzeContent (installed w) (responses w) htmlContent options) of
                      Inl error \<Rightarrow> (started @ [Reply (errorReply error)], db)
                    | Inr analysis \<Rightarrow>
                        (let analysed = started @
                               [Edit ([55358, 56800] @ js '' AI analysis complete, sanitizing slug...'')]
                         in case cleanUserSlug (randomDraws w) (analysisSlug analysis) of
                              Inl error \<Rightarrow> (analysed @ [Reply (errorReply error)], db)
                            | Inr sanitizedSlug \<Rightarrow>
                                (let data = \<lparr> postId = None,
                                              slug = Some sanitizedSlug,
                                              title = Some (analysisTitle analysis),
                                              description = Some (analysisDescription analysis),
                                              html_content = Some htmlContent,
                                              discord_user_id = Some (authorId msg),
                                              discord_username = Some (authorUsername msg),
                                              created_at = None, updated_at = None \<rparr>;
                                     saving = analysed @
                                       [Edit ([55357, 56510] @ js '' Saving to database...''),
                                        PostCreate data]
                                 in case create (lastIDReported w) (currentTimestamp w) db data of
                                      (Inl error, db') \<Rightarrow> (saving @ [Reply (errorReply error)], db')
                                    | (Inr created, db') \<Rightarrow>
                                        (saving @ [DeleteProcessing, ReplySuccess created], db')))))))"

section \<open>utils/security.js: sanitizeHTML\<close>

text \<open>
  The configuration that \<open>sanitizeHTML\<close> works with, \<open>{...SAFE_HTML_CONFIG, ...options}\<close>.
  \<open>allowedAttributes\<close> is an object literal; the model keeps its own properties as an
  association list. \<open>allowStyleTags\<close> and \<open>allowDataUrls\<close> are absent from
  \<open>SAFE_HTML_CONFIG\<close>, hence falsy unless the options set them.
\<close>

record sanitize_config =
  allowedTags :: "jsstring list"
  allowedAttributes :: "(jsstring \<times> jsstring list) list"
  allowedProtocols :: "jsstring list"
  allowedStyles :: "jsstring list"
  allowStyleTags :: bool
  allowDataUrls :: bool

definition SAFE_HTML_CONFIG :: sanitize_config where
  "SAFE_HTML_CONFIG =
     \<lparr> allowedTags = map js
         [''p'', ''br'', ''strong'', ''b'', ''em'', ''i'', ''u'', ''span'', ''div'',
          ''h1'', ''h2'', ''h3'', ''h4'', ''h5'', ''h6'',
          ''ul'', ''ol'', ''li'',
          ''a'', ''img'',
          ''table'', ''thead'', ''tbody'', ''tr'', ''td'', ''th'',
          ''code'', ''pre'', ''blockquote'',
          ''article'', ''section'', ''aside'', ''header'', ''footer'', ''main'', ''nav'',
          ''hr'', ''small'', ''sub'', ''sup'', ''mark'', ''del'', ''ins'', ''abbr'', ''cite'',
          ''q'', ''dfn'', ''time'', ''kbd'', ''samp'', ''var'', ''details'', ''summary''],
       allowedAttributes =
         [(js ''a'', map js [''href'', ''title'', ''target'', ''rel'']),
          (js ''img'', map js [''src'', ''alt'', ''title'', ''width'', ''height'']),
          (js ''blockquote'', map js [''cite'']),
          (js ''q'', map js [''cite'']),
          (js ''time'', map js [''datetime'']),
          (js ''abbr'', map js [''title'']),
          (js ''dfn'', map js [''title'']),
          (js ''th'', map js [''scope'', ''colspan'', ''rowspan'']),
          (js ''td'', map js [''colspan'', ''rowspan'']),
          (js ''details'', map js [''open'']),
          (js ''*'', map js [''class'', ''id'', ''style''])],
       allowedProtocols = map js [''http'', ''https'', ''mailto'', ''tel''],
       allowedStyles = map js
         [''color'', ''background-color'', ''font-size'', ''font-family'', ''font-weight'',
          ''text-align'', ''text-decoration'', ''margin'', ''padding'', ''border'',
          ''width'', ''height'', ''display'', ''float'', ''clear''],
       allowStyleTags = False,
       allowDataUrls = False \<rparr>"

text \<open>
  \<open>s.replace(regex, ...)\<close> with the \<open>g\<close> flag. The expression is tried at the current
  position; \<open>matchAt\<close> is given the text from that position on and returns the replacement
  and the number of code units matched. After a match the scan continues behind it,
  otherwise the code unit is copied and the scan moves on by one. None of the expressions
  of this file matches the empty string, and none looks at the text before the position.
  Each expression is built from literals and greedy runs of a character class that are
  followed by a character outside the class, so that giving back part of a run never
  helps: the first attempt of the engine is its only one, and the functions below follow it.
\<close>

function replaceGlobal :: "(jsstring \<Rightarrow> (jsstring \<times> nat) option) \<Rightarrow> jsstring \<Rightarrow> jsstring" where
  "replaceGlobal matchAt [] = []"
| "replaceGlobal matchAt (c # cs) =
     (case matchAt (c # cs) of
        None \<Rightarrow> c # replaceGlobal matchAt cs
      | Some (replacement, n) \<Rightarrow> replacement @ replaceGlobal matchAt (drop (n - 1) cs))"
  by pat_completeness auto
termination
  by (relation "measure (\<lambda>(matchAt, s). length s)") auto

text \<open>\<open>s.replace(regex, '')\<close>, the expression given by the length of its match.\<close>

definition removeGlobal :: "(jsstring \<Rightarrow> nat option) \<Rightarrow> jsstring \<Rightarrow> jsstring" where
  "removeGlobal matchAt s = replaceGlobal (\<lambda>t. map_option (Pair []) (matchAt t)) s"

definition isQuote :: "nat \<Rightarrow> bool" where
  "isQuote c = (c = 34 \<or> c = 39)"

definition spaces :: "jsstring \<Rightarrow> nat" where
  "spaces s = length (takeWhile isSpace s)"

text \<open>The next code unit exists and belongs to the class.\<close>

definition firstIs :: "(nat \<Rightarrow> bool) \<Rightarrow> jsstring \<Rightarrow> bool" where
  "firstIs P s = (case s of [] \<Rightarrow> False | c # cs \<Rightarrow> P c)"

text \<open>
  \<open>/<script\b[^<]*(?:(?!<\/script>)<[^<]*)*<\/script>/gi\<close> and the same expression for
  \<open>style\<close>. Behind the opening \<open><script\<close>, which must not be followed by a word
  character, the expression walks from one \<open><\<close> to the next and stops at the first one
  where \<open></script>\<close> starts; \<open>untilClosing\<close> is the number of code units up to and
  including that closing tag. Under the \<open>i\<close> flag (without \<open>u\<close>) only the ASCII letters
  are matched irrespective of case.
\<close>

fun untilClosing :: "jsstring \<Rightarrow> jsstring \<Rightarrow> nat option" where
  "untilClosing closing [] = None"
| "untilClosing closing (c # cs) =
     (if startsWithCI (c # cs) closing then Some (length closing)
      else map_option Suc (untilClosing closing cs))"

definition elementMatch :: "jsstring \<Rightarrow> jsstring \<Rightarrow> nat option" where
  "elementMatch name s =
     (let inside = drop (Suc (length name)) s
      in if startsWithCI s (60 # name) \<and> \<not> firstIs isWordChar inside
         then map_option (\<lambda>k. Suc (length name) + k)
                (untilClosing (js ''</'' @ name @ js ''>'') inside)
         else None)"

text \<open>
  The event-handler expressions \<open>/\s*on\w+\s*=\s*["'][^"']*["']/gi\<close> and
  \<open>/\s*on\w+\s*=\s*[^"'\s>]+/gi\<close>, and the expressions
  \<open>\s*${attr}\s*=\s*["'][^"']*["']\<close> built from the list \<open>dangerousAttrs\<close>: leading white
  space, a name, and a value. The quoted value ends at the first quote of either kind.
\<close>

definition eventNameMatch :: "jsstring \<Rightarrow> nat option" where
  "eventNameMatch s =
     (if startsWithCI s (js ''on'') \<and> takeWhile isWordChar (drop 2 s) \<noteq> []
      then Some (2 + length (takeWhile isWordChar (drop 2 s)))
      else None)"

definition literalMatch :: "jsstring \<Rightarrow> jsstring \<Rightarrow> nat option" where
  "literalMatch literal s = (if startsWithCI s literal then Some (length literal) else None)"

definition quotedValueMatch :: "jsstring \<Rightarrow> nat option" where
  "quotedValueMatch s =
     (case dropWhile isSpace s of
        [] \<Rightarrow> None
      | e # t \<Rightarrow>
          (case dropWhile isSpace t of
             [] \<Rightarrow> None
           | q # v \<Rightarrow>
               if e = 61 \<and> isQuote q \<and> filter isQuote v \<noteq> []
               then Some (spaces s + 1 + spaces t + 1
                          + length (takeWhile (\<lambda>c. \<not> isQuote c) v) + 1)
               else None))"

definition unquotedValueMatch :: "jsstring \<Rightarrow> nat option" where
  "unquotedValueMatch s =
     (case dropWhile isSpace s of
        [] \<Rightarrow> None
      | e # t \<Rightarrow>
          (let v = takeWhile (\<lambda>c. \<not> isQuote c \<and> \<not> isSpace c \<and> c \<noteq> 62) (dropWhile isSpace t)
           in if e = 61 \<and> v \<noteq> [] then Some (spaces s + 1 + spaces t + length v) else None))"

definition attributeMatch ::
  "(jsstring \<Rightarrow> nat option) \<Rightarrow> (jsstring \<Rightarrow> nat option) \<Rightarrow> jsstring \<Rightarrow> nat option" where
  "attributeMatch nameMatch valueMatch s =
     (case nameMatch (dropWhile isSpace s) of
        None \<Rightarrow> None
      | Some n \<Rightarrow>
          (case valueMatch (drop n (dropWhile isSpace s)) of
             None \<Rightarrow> None
           | Some v \<Rightarrow> Some (spaces s + n + v)))"

definition dangerousAttrs :: "jsstring list" where
  "dangerousAttrs = map js
     [''onload'', ''onerror'', ''onclick'', ''onmouseover'', ''onmouseout'',
      ''onkeydown'', ''onkeyup'', ''onsubmit'', ''onchange'', ''onfocus'',
      ''onblur'', ''onscroll'', ''onresize'', ''onunload'', ''onbeforeunload'']"

text \<open>
  \<open>sanitizeElements\<close>: \<open>html.replace(/<\/?([a-zA-Z][a-zA-Z0-9]*)[^>]*>/g, ...)\<close>. A tag is
  \<open><\<close>, an optional \<open>/\<close>, a letter, and everything up to the first \<open>>\<close>; the captured
  name is the longest run of letters and digits. The tag is removed when its name in
  lower case is not in \<open>allowedTags\<close>, and kept as it is otherwise. The text around the
  removed tags is joined, and nothing looks at the joined text again.
\<close>

definition tagMatch :: "jsstring \<Rightarrow> (jsstring \<times> nat) option" where
  "tagMatch s =
     (case s of
        [] \<Rightarrow> None
      | c # t \<Rightarrow>
          (let slash = (if firstIs (\<lambda>x. x = 47) t then 1 else 0)
           in case drop slash t of
                [] \<Rightarrow> None
              | l # v \<Rightarrow>
                  if c = 60 \<and> isAlpha l \<and> 62 \<in> set v
                  then Some (l # takeWhile isAlnum v,
                             1 + slash + 1 + length (takeWhile (\<lambda>x. x \<noteq> 62) v) + 1)
                  else None))"

definition sanitizeElements :: "sanitize_config \<Rightarrow> jsstring \<Rightarrow> jsstring" where
  "sanitizeElements config html =
     replaceGlobal
       (\<lambda>s. case tagMatch s of
               None \<Rightarrow> None
             | Some (tagName, n) \<Rightarrow>
                 if toLowerCase tagName \<in> set (allowedTags config) then Some (take n s, n)
                 else Some ([], n))
       html"

text \<open>
  \<open>sanitizeURL(url, allowedProtocols)\<close>. \<open>new URL(url)\<close> belongs to the engine: the
  parameter \<open>newURL\<close> gives the \<open>protocol\<close> property of the parsed URL (with its colon), or
  \<open>None\<close> when the constructor throws, in which case the URL is returned as it is.
\<close>

definition sanitizeURL ::
  "(jsstring \<Rightarrow> jsstring option) \<Rightarrow> jsstring \<Rightarrow> jsstring list \<Rightarrow> jsstring option" where
  "sanitizeURL newURL url protocols =
     (if url = [] then None
      else
        (let trimmed = trim url
         in if startsWithCI trimmed (js ''javascript:'') \<or> startsWithCI trimmed (js ''vbscript:'')
               \<or> startsWithCI trimmed (js ''data:'') then None
            else if startsWith trimmed (js ''/'') \<or> startsWith trimmed (js ''./'')
               \<or> startsWith trimmed (js ''../'') then Some trimmed
            else
              (case newURL trimmed of
                 None \<Rightarrow> Some trimmed
               | Some protocol \<Rightarrow>
                   if butlast protocol \<in> set protocols then Some trimmed else None)))"

text \<open>\<open>s.split(c)\<close> for a separator of one character.\<close>

fun splitOn :: "nat \<Rightarrow> jsstring \<Rightarrow> jsstring list" where
  "splitOn sep [] = [[]]"
| "splitOn sep (c # cs) =
     (if c = sep then [] # splitOn sep cs
      else (case splitOn sep cs of [] \<Rightarrow> [[c]] | piece # pieces \<Rightarrow> (c # piece) # pieces))"

text \<open>
  \<open>sanitizeStyleAttribute(style, allowedStyles)\<close>. Of the pieces of a declaration between
  colons only the first two are read (\<open>const [property, value] = ...\<close>); a declaration is
  kept when both are non-empty, the property is allowed and the value matches none of
  \<open>/(expression|javascript|vbscript|behavior|binding|@import|url\()/i\<close>.
\<close>

definition dangerousStyleValues :: "jsstring list" where
  "dangerousStyleValues = map js
     [''expression'', ''javascript'', ''vbscript'', ''behavior'', ''binding'', ''@import'', ''url('']"

definition sanitizeDeclaration :: "jsstring list \<Rightarrow> jsstring \<Rightarrow> jsstring list" where
  "sanitizeDeclaration styles declaration =
     (case map trim (splitOn 58 declaration) of
        property # val # others \<Rightarrow>
          if property \<noteq> [] \<and> val \<noteq> [] \<and> toLowerCase property \<in> set styles
             \<and> filter (includesStr (map asciiLower val)) dangerousStyleValues = []
          then [property @ js '': '' @ val]
          else []
      | _ \<Rightarrow> [])"

definition sanitizeStyleAttribute :: "jsstring \<Rightarrow> jsstring list \<Rightarrow> jsstring" where
  "sanitizeStyleAttribute style styles =
     (let declarations = filter (\<lambda>decl. decl \<noteq> []) (map trim (splitOn 59 style))
      in joinWith (js ''; '') (concat (map (sanitizeDeclaration styles) declarations)))"

text \<open>
  \<open>sanitizeClassOrId(value)\<close>: \<open>value.replace(/[^a-zA-Z0-9_-\s]/g, '').trim()\<close>. The class
  holds the letters, the digits, \<open>_\<close>, \<open>-\<close> and white space.
\<close>

definition sanitizeClassOrId :: "jsstring \<Rightarrow> jsstring" where
  "sanitizeClassOrId v =
     trim (filter (\<lambda>c. isAlnum c \<or> c = 95 \<or> c = 45 \<or> isSpace c) v)"

text \<open>\<open>sanitizeAttributeValue(attrName, attrValue, config)\<close>; \<open>None\<close> stands for \<open>null\<close>.\<close>

definition sanitizeAttributeValue ::
  "(jsstring \<Rightarrow> jsstring option) \<Rightarrow> sanitize_config \<Rightarrow> jsstring \<Rightarrow> jsstring \<Rightarrow> jsstring option" where
  "sanitizeAttributeValue newURL config attrName attrValue =
     (if attrValue = [] then Some []
      else if attrName = js ''href'' then sanitizeURL newURL attrValue (allowedProtocols config)
      else if attrName = js ''src''
        then sanitizeURL newURL attrValue (allowedProtocols config @ [js ''data''])
      else if attrName = js ''style''
        then Some (sanitizeStyleAttribute attrValue (allowedStyles config))
      else if attrName = js ''class'' \<or> attrName = js ''id'' then Some (sanitizeClassOrId attrValue)
      else if attrName = js ''target''
        then (if attrValue \<in> set (map js [''_blank'', ''_self'', ''_parent'', ''_top''])
              then Some attrValue else None)
      else if attrName = js ''rel''
        then (let rels = filter (\<lambda>rel. rel \<in> set (map js
                           [''nofollow'', ''noopener'', ''noreferrer'', ''alternate'', ''canonical'']))
                           (splitRuns isSpace attrValue)
              in if rels = [] then None else Some (joinWith (js '' '') rels))
      else Some (escapeHTML attrValue))"

text \<open>
  \<open>sanitizeAttributes\<close>: \<open>html.replace(/<([a-zA-Z][a-zA-Z0-9]*)((?:\s+[^>]*)?)>/g, ...)\<close>.
  \<open>elementMatch\<close> above is for the script and style elements; \<open>openingTagMatch\<close> is this
  expression: \<open><\<close>, the longest run of letters and digits after a letter, and then either
  \<open>>\<close> at once or white space and everything up to the first \<open>>\<close>. It returns the two
  captured groups.
\<close>

definition openingTagMatch :: "jsstring \<Rightarrow> (jsstring \<times> jsstring) option" where
  "openingTagMatch s =
     (case s of
        [] \<Rightarrow> None
      | c # t \<Rightarrow>
          (case dropWhile isAlnum t of
             [] \<Rightarrow> None
           | d # w \<Rightarrow>
               if c = 60 \<and> firstIs isAlpha t \<and> d = 62
                 then Some (takeWhile isAlnum t, [])
               else if c = 60 \<and> firstIs isAlpha t \<and> isSpace d \<and> 62 \<in> set w
                 then Some (takeWhile isAlnum t, d # takeWhile (\<lambda>x. x \<noteq> 62) w)
               else None))"

text \<open>
  The loop \<open>while ((attrMatch = attrRegex.exec(attributes)) !== null)\<close> with
  \<open>/\s+([a-zA-Z][a-zA-Z0-9-]*)\s*=\s*["']([^"']*)["']/g\<close>: \<open>attributeAt\<close> is one match at
  the current position (name, value and length), \<open>attributesOf\<close> the list of all matches,
  each search starting behind the previous match.
\<close>

definition isAttrNameChar :: "nat \<Rightarrow> bool" where
  "isAttrNameChar c = (isAlnum c \<or> c = 45)"

definition attributeAt :: "jsstring \<Rightarrow> (jsstring \<times> jsstring \<times> nat) option" where
  "attributeAt s =
     (let named = dropWhile isSpace s;
          attrName = takeWhile isAttrNameChar named;
          assigned = dropWhile isSpace (dropWhile isAttrNameChar named)
      in case dropWhile isSpace (drop 1 assigned) of
           [] \<Rightarrow> None
         | q # v \<Rightarrow>
             if spaces s > 0 \<and> firstIs isAlpha named \<and> take 1 assigned = [61]
                \<and> isQuote q \<and> filter isQuote v \<noteq> []
             then Some (attrName, takeWhile (\<lambda>c. \<not> isQuote c) v,
                        spaces s + length attrName + spaces (dropWhile isAttrNameChar named) + 1
                        + spaces (drop 1 assigned) + 1 + length (takeWhile (\<lambda>c. \<not> isQuote c) v) + 1)
             else None)"

function attributesOf :: "jsstring \<Rightarrow> (jsstring \<times> jsstring) list" where
  "attributesOf [] = []"
| "attributesOf (c # cs) =
     (case attributeAt (c # cs) of
        None \<Rightarrow> attributesOf cs
      | Some (attrName, attrValue, n) \<Rightarrow> (attrName, attrValue) # attributesOf (drop (n - 1) cs))"
  by pat_completeness auto
termination
  by (relation "measure length") auto

text \<open>
  \<open>config.allowedAttributes[lowerTagName] || []\<close>. \<open>allowedAttributes\<close> is an ordinary
  object, so a name that it does not hold itself is looked up in \<open>Object.prototype\<close>; for
  the names found there the value is a function or an object without \<open>includes\<close>, and
  \<open>allowedForTag.includes(lowerAttrName)\<close> throws a \<open>TypeError\<close>.
\<close>

definition objectPrototypeNames :: "jsstring list" where
  "objectPrototypeNames = map js
     [''constructor'', ''__defineGetter__'', ''__defineSetter__'', ''hasOwnProperty'',
      ''__lookupGetter__'', ''__lookupSetter__'', ''isPrototypeOf'', ''propertyIsEnumerable'',
      ''toString'', ''valueOf'', ''__proto__'', ''toLocaleString'']"

definition allowedForTag :: "sanitize_config \<Rightarrow> jsstring \<Rightarrow> js_error + jsstring list" where
  "allowedForTag config lowerTagName =
     (case map_of (allowedAttributes config) lowerTagName of
        Some names \<Rightarrow> Inr names
      | None \<Rightarrow>
          if lowerTagName \<in> set objectPrototypeNames
          then Inl (TypeError (js ''allowedForTag.includes is not a function''))
          else Inr [])"

definition allowedGlobally :: "sanitize_config \<Rightarrow> jsstring list" where
  "allowedGlobally config =
     (case map_of (allowedAttributes config) (js ''*'') of Some names \<Rightarrow> names | None \<Rightarrow> [])"

text \<open>The body of the loop for the matches found, collecting \<open>sanitizedAttrs\<close>.\<close>

fun sanitizedAttrs ::
  "(jsstring \<Rightarrow> jsstring option) \<Rightarrow> sanitize_config \<Rightarrow> jsstring \<Rightarrow> (jsstring \<times> jsstring) list
     \<Rightarrow> js_error + jsstring list" where
  "sanitizedAttrs newURL config lowerTagName [] = Inr []"
| "sanitizedAttrs newURL config lowerTagName ((attrName, attrValue) # later) =
     (case allowedForTag config lowerTagName of
        Inl e \<Rightarrow> Inl e
      | Inr forTag \<Rightarrow>
          (let lowerAttrName = toLowerCase attrName;
               pushed =
                 (if lowerAttrName \<in> set forTag \<or> lowerAttrName \<in> set (allowedGlobally config)
                  then (case sanitizeAttributeValue newURL config lowerAttrName attrValue of
                          None \<Rightarrow> []
                        | Some sanitizedValue \<Rightarrow> [attrName @ [61, 34] @ sanitizedValue @ [34]])
                  else [])
           in case sanitizedAttrs newURL config lowerTagName later of
                Inl e \<Rightarrow> Inl e
              | Inr others \<Rightarrow> Inr (pushed @ others)))"

text \<open>The callback of \<open>sanitizeAttributes\<close> for one opening tag.\<close>

definition sanitizeOpeningTag ::
  "(jsstring \<Rightarrow> jsstring option) \<Rightarrow> sanitize_config \<Rightarrow> jsstring \<Rightarrow> jsstring
     \<Rightarrow> js_error + jsstring" where
  "sanitizeOpeningTag newURL config tagName attributes =
     (if attributes = [] then Inr (60 # tagName @ [62])
      else
        (case sanitizedAttrs newURL config (toLowerCase tagName) (attributesOf attributes) of
           Inl e \<Rightarrow> Inl e
         | Inr attrs \<Rightarrow>
             Inr (60 # tagName
                  @ (if attrs = [] then [] else 32 # joinWith (js '' '') attrs)
                  @ [62])))"

function sanitizeAttributes ::
  "(jsstring \<Rightarrow> jsstring option) \<Rightarrow> sanitize_config \<Rightarrow> jsstring \<Rightarrow> js_error + jsstring" where
  "sanitizeAttributes newURL config [] = Inr []"
| "sanitizeAttributes newURL config (c # cs) =
     (case openingTagMatch (c # cs) of
        None \<Rightarrow>
          (case sanitizeAttributes newURL config cs of
             Inl e \<Rightarrow> Inl e
           | Inr rest \<Rightarrow> Inr (c # rest))
      | Some (tagName, attributes) \<Rightarrow>
          (case sanitizeOpeningTag newURL config tagName attributes of
             Inl e \<Rightarrow> Inl e
           | Inr tag \<Rightarrow>
               (case sanitizeAttributes newURL config
                       (drop (length tagName + length attributes + 1) cs) of
                  Inl e \<Rightarrow> Inl e
                | Inr rest \<Rightarrow> Inr (tag @ rest))))"
  by pat_completeness auto
termination
  by (relation "measure (\<lambda>(newURL, config, s). length s)") auto

text \<open>
  \<open>/<(\w+)(?:\s+[^>]*)?>[\s]*<\/\1>/gi\<close>: an opening tag, white space only, and the closing
  tag of the same name, compared irrespective of the case of the ASCII letters.
\<close>

definition emptyElementMatch :: "jsstring \<Rightarrow> nat option" where
  "emptyElementMatch s =
     (let tagName = takeWhile isWordChar (drop 1 s);
          behind = dropWhile isWordChar (drop 1 s);
          attributes =
            (if take 1 behind = [62] then Some 0
             else if firstIs isSpace behind \<and> 62 \<in> set behind
               then Some (length (takeWhile (\<lambda>x. x \<noteq> 62) behind))
             else None)
      in case attributes of
           None \<Rightarrow> None
         | Some a \<Rightarrow>
             (let body = drop (a + 1) behind;
                  closing = dropWhile isSpace body
              in if take 1 s = [60] \<and> tagName \<noteq> [] \<and> take 2 closing = js ''</''
                    \<and> map asciiLower (take (length tagName) (drop 2 closing)) = map asciiLower tagName
                    \<and> take 1 (drop (2 + length tagName) closing) = [62]
                 then Some (1 + length tagName + a + 1 + spaces body + 2 + length tagName + 1)
                 else None))"

text \<open>
  \<open>sanitizeHTML(html, options)\<close>. The argument is a string, so the guard
  \<open>!html || typeof html !== 'string'\<close> holds for the empty string only.
\<close>

definition sanitizeHTML ::
  "(jsstring \<Rightarrow> jsstring option) \<Rightarrow> sanitize_config \<Rightarrow> jsstring \<Rightarrow> js_error + jsstring" where
  "sanitizeHTML newURL config html =
     (if html = [] then Inr []
      else
        (let noScript = removeGlobal (elementMatch (js ''script'')) html;
             noStyle = (if allowStyleTags config then noScript
                        else removeGlobal (elementMatch (js ''style'')) noScript);
             noQuotedHandlers = removeGlobal (attributeMatch eventNameMatch quotedValueMatch) noStyle;
             noHandlers = removeGlobal (attributeMatch eventNameMatch unquotedValueMatch) noQuotedHandlers;
             noJavascript = removeGlobal (literalMatch (js ''javascript:'')) noHandlers;
             noData = (if allowDataUrls config then noJavascript
                       else removeGlobal (literalMatch (js ''data:'')) noJavascript);
             noVbscript = removeGlobal (literalMatch (js ''vbscript:'')) noData;
             noDangerousAttrs =
               foldl (\<lambda>h attr. removeGlobal (attributeMatch (literalMatch attr) quotedValueMatch) h)
                     noVbscript dangerousAttrs
         in case sanitizeAttributes newURL config (sanitizeElements config noDangerousAttrs) of
              Inl e \<Rightarrow> Inl e
            | Inr sanitized \<Rightarrow> Inr (trim (removeGlobal emptyElementMatch sanitized))))"

section \<open>Auxiliary definitions for the proofs\<close>

text \<open>No two adjacent hyphens: the negation of the test \<open>/--+/\<close> of \<open>validateSlug\<close>.\<close>

fun noDoubleHyphen :: "jsstring \<Rightarrow> bool" where
  "noDoubleHyphen [] = True"
| "noDoubleHyphen [x] = True"
| "noDoubleHyphen (x # y # zs) = (\<not> (x = 45 \<and> y = 45) \<and> noDoubleHyphen (y # zs))"

text \<open>
  The steps of \<open>normalizeSlug\<close> that follow the lower-casing, as a function of the string
  they are applied to.
\<close>

definition finishSlug :: "bool \<Rightarrow> jsstring \<Rightarrow> jsstring" where
  "finishSlug unicode s =
     trimEnd (\<lambda>c. \<not> isAlnum c) (trimStart (\<lambda>c. \<not> isAlnum c)
       (replaceRuns (\<lambda>c. c = 45) (js ''-'')
         (trimEnd (\<lambda>c. c = 45 \<or> c = 46) (trimStart (\<lambda>c. c = 45 \<or> c = 46)
           (replaceEach (\<lambda>c. \<not> isKept c) (if unicode then [] else js ''-'')
             (replaceRuns (\<lambda>c. c = 45) (js ''-'')
               (replaceRuns (\<lambda>c. isSpace c \<or> c = 95) (js ''-'') s)))))))"

text \<open>
  An existence predicate for a store that holds \<open>x\<close> and \<open>x-1\<close> up to \<open>x-100\<close> and
  nothing else.
\<close>

definition crowded :: "jsstring \<Rightarrow> bool" where
  "crowded s = (s \<in> set (js ''x'' # map (numbered (js ''x'')) [1..<101]))"

text \<open>The post outcomes that \<open>shouldRetry\<close> accepts once the interceptor has wrapped them.\<close>

fun transient :: "'r post_result \<Rightarrow> bool" where
  "transient (Status st msg) = (st = 429 \<or> st = 502 \<or> st = 503 \<or> st = 504)"
| "transient (Responded r) = False"
| "transient NoResponse = False"
| "transient (SetupFailed m) = False"

text \<open>
  Stand-ins for the libraries on markup that is already clean: DOMPurify returns it
  unchanged and the text of the body is the markup without its tags. A language-model
  service whose every response lacks the description, and the default options with the
  fallback title the command handler passes for a code block.
\<close>

definition cleanLibraries :: libraries where
  "cleanLibraries = \<lparr> purify = (\<lambda>s. Some s), bodyText = (\<lambda>s. Some (stripTags s)) \<rparr>"



text \<open>What \<open>validate\<close> demands of the data given to \<open>create\<close>.\<close>

definition acceptable :: "post \<Rightarrow> bool" where
  "acceptable data =
     (\<not> blank (slug data) \<and> \<not> blank (title data) \<and> \<not> blank (description data) \<and>
      \<not> blank (html_content data) \<and> \<not> blank (discord_user_id data) \<and>
      \<not> blank (discord_username data) \<and>
      (case slug data of None \<Rightarrow> False | Some s \<Rightarrow> isPlainSlug s))"

text \<open>A post with the slug \<open>hello\<close> and a table that holds it already.\<close>

definition helloPost :: post where
  "helloPost = \<lparr> postId = None, slug = Some (js ''hello''), title = Some (js ''Hello''),
     description = Some (js ''A greeting''), html_content = Some (js ''<h1>Hello</h1>''),
     discord_user_id = Some (js ''u1''), discord_username = Some (js ''user''),
     created_at = None, updated_at = None \<rparr>"

definition helloStore :: database where
  "helloStore = \<lparr> rows = [helloPost \<lparr> postId := Some 1, created_at := Some (js ''2024-01-01 00:00:00''),
                                        updated_at := Some (js ''2024-01-01 00:00:00'') \<rparr>],
                  sequence = 1 \<rparr>"

definition emptyStore :: database where
  "emptyStore = \<lparr> rows = [], sequence = 0 \<rparr>"

text \<open>
  A command that carries \<open><h1>Hello</h1>\<close> in an html code block, a language-model service
  that answers with the slug \<open>hello\<close>, and the world around them. The second message carries
  a script as well; for it DOMPurify, configured as in \<open>ContentAnalyzer.sanitizeHTML\<close>,
  returns \<open><h1>Hello</h1>\<close>.
\<close>

definition helloMessage :: message where
  "helloMessage = \<lparr> content = js ''!poop '' @ fence @ js ''html'' @ [10] @ js ''<h1>Hello</h1>'' @
                                 [10] @ fence,
                     attachment = None, authorId = js ''u1'', authorUsername = js ''user'' \<rparr>"

definition helloResponses :: "nat \<Rightarrow> api_response post_result" where
  "helloResponses i =
     Responded (Parsed (Text (js ''hello'')) (Text (js ''Hello'')) (Text (js ''A greeting'')))"

definition helloWorld :: world where
  "helloWorld = \<lparr> installed = cleanLibraries, responses = helloResponses,
                   randomDraws = [0, 1, 2, 3, 4, 5],
                   currentTimestamp = js ''2024-01-02 00:00:00'', lastIDReported = True \<rparr>"

definition scriptMessage :: message where
  "scriptMessage = \<lparr> content = js ''!poop '' @ fence @ js ''html'' @ [10] @
                                  js ''<h1>Hello</h1><script>alert(1)</script>'' @ [10] @ fence,
                      attachment = None, authorId = js ''u1'', authorUsername = js ''user'' \<rparr>"

definition scriptLibraries :: libraries where
  "scriptLibraries = \<lparr> purify = (\<lambda>s. Some (js ''<h1>Hello</h1>'')),
                        bodyText = (\<lambda>s. Some (stripTags s)) \<rparr>"

definition scriptWorld :: world where
  "scriptWorld = helloWorld \<lparr> installed := scriptLibraries \<rparr>"

fun isPostCreate :: "event \<Rightarrow> bool" where
  "isPostCreate (PostCreate data) = True"
| "isPostCreate SendTyping = False"
| "isPostCreate (Reply m) = False"
| "isPostCreate (ReplySuccess p) = False"
| "isPostCreate (Edit m) = False"
| "isPostCreate DeleteProcessing = False"
| "isPostCreate (AnalyzeContent h opts) = False"

text \<open>What the handler does once \<open>Post.create\<close> has returned or thrown.\<close>

fun afterCreate :: "js_error + post \<Rightarrow> event list" where
  "afterCreate (Inl error) = [Reply (errorReply error)]"
| "afterCreate (Inr created) = [DeleteProcessing, ReplySuccess created]"

text \<open>Lower-case letters, digits and the dot: code units that \<open>normalizeSlug\<close> leaves alone.\<close>

definition plainUnit :: "nat \<Rightarrow> bool" where
  "plainUnit c = (isDigit c \<or> (97 \<le> c \<and> c \<le> 122) \<or> c = 46)"
section \<open>Slug generation and validation\<close>

lemma validateSlug_isValid_iff:
  "isValid (validateSlug sl) \<longleftrightarrow>
     sl \<noteq> [] \<and> 3 \<le> length sl \<and> length sl \<le> 80 \<and> list_all isSlugChar sl \<and>
     isAlnum (hd sl) \<and> isAlnum (last sl) \<and> \<not> includesStr sl (js ''--'') \<and>
     \<not> isReservedSlug sl"
  by (auto simp add: validateSlug_def Let_def)

lemma includes_double_hyphen: "includesStr s (js ''--'') \<longleftrightarrow> \<not> noDoubleHyphen s"
  by (induction s rule: noDoubleHyphen.induct) (auto simp add: js_def)

lemma noDoubleHyphen_tl: "noDoubleHyphen (x # s) \<Longrightarrow> noDoubleHyphen s"
  by (cases s) auto

lemma noDoubleHyphen_dropWhile: "noDoubleHyphen s \<Longrightarrow> noDoubleHyphen (dropWhile P s)"
  by (induction s) (auto dest: noDoubleHyphen_tl)

lemma noDoubleHyphen_take: "noDoubleHyphen s \<Longrightarrow> noDoubleHyphen (take n s)"
proof (induction s arbitrary: n rule: noDoubleHyphen.induct)
  case (3 x y zs)
  show ?case
  proof (cases n)
    case 0 then show ?thesis by simp
  next
    case (Suc m)
    have "noDoubleHyphen (take m (y # zs))" using 3 by simp
    then show ?thesis using 3(2) Suc by (cases m) auto
  qed
qed (auto simp: take_Cons')

lemma trimEnd_take: "trimEnd P s = take (length (trimEnd P s)) s"
proof -
  have "rev s = takeWhile P (rev s) @ dropWhile P (rev s)" by simp
  then have "s = rev (dropWhile P (rev s)) @ rev (takeWhile P (rev s))"
    by (metis rev_append rev_rev_ident)
  then show ?thesis unfolding trimEnd_def
    by (metis append_eq_conv_conj)
qed

lemma noDoubleHyphen_trimEnd: "noDoubleHyphen s \<Longrightarrow> noDoubleHyphen (trimEnd P s)"
  by (subst trimEnd_take) (rule noDoubleHyphen_take)

lemma noDoubleHyphen_trimStart: "noDoubleHyphen s \<Longrightarrow> noDoubleHyphen (trimStart P s)"
  by (simp add: trimStart_def noDoubleHyphen_dropWhile)

lemma collapse_aux:
  "noDoubleHyphen (replaceRunsFrom (\<lambda>c. c = 45) [45] b s) \<and>
   (b \<longrightarrow> replaceRunsFrom (\<lambda>c. c = 45) [45] b s = [] \<or> hd (replaceRunsFrom (\<lambda>c. c = 45) [45] b s) \<noteq> 45)"
proof (induction s arbitrary: b)
  case Nil
  then show ?case by simp
next
  case (Cons c s)
  show ?case
  proof (cases "c = 45")
    case True
    note c = this
    show ?thesis
    proof (cases b)
      case True
      then show ?thesis using c Cons[of True] by simp
    next
      case False
      have "noDoubleHyphen (45 # replaceRunsFrom (\<lambda>c. c = 45) [45] True s)"
        using Cons[of True] by (cases "replaceRunsFrom (\<lambda>c. c = 45) [45] True s") auto
      then show ?thesis using c False by simp
    qed
  next
    case False
    have "noDoubleHyphen (c # replaceRunsFrom (\<lambda>c. c = 45) [45] False s)"
      using Cons[of False] False by (cases "replaceRunsFrom (\<lambda>c. c = 45) [45] False s") auto
    then show ?thesis using False by simp
  qed
qed

lemma noDoubleHyphen_collapse: "noDoubleHyphen (replaceRuns (\<lambda>c. c = 45) (js ''-'') s)"
  using collapse_aux[of False s] by (simp add: replaceRuns_def js_def)

lemma set_replaceRunsFrom: "set (replaceRunsFrom P r b s) \<subseteq> set r \<union> {c \<in> set s. \<not> P c}"
  by (induction s arbitrary: b) auto

lemma set_replaceRuns: "set (replaceRuns P r s) \<subseteq> set r \<union> {c \<in> set s. \<not> P c}"
  by (simp add: replaceRuns_def set_replaceRunsFrom)

lemma set_replaceEach: "set (replaceEach P r s) \<subseteq> set r \<union> {c \<in> set s. \<not> P c}"
  by (auto simp add: replaceEach_def split: if_splits)

lemma set_trimStart: "set (trimStart P s) \<subseteq> set s"
  by (auto simp add: trimStart_def dest: set_dropWhileD)

lemma set_trimEnd: "set (trimEnd P s) \<subseteq> set s"
  by (auto simp add: trimEnd_def dest: set_dropWhileD)

lemma hd_trimStart: "trimStart P s \<noteq> [] \<Longrightarrow> \<not> P (hd (trimStart P s))"
  by (simp add: trimStart_def hd_dropWhile)

lemma last_trimEnd: "trimEnd P s \<noteq> [] \<Longrightarrow> \<not> P (last (trimEnd P s))"
  by (simp add: trimEnd_def last_rev hd_dropWhile)

lemma hd_trimEnd: "trimEnd P s \<noteq> [] \<Longrightarrow> hd (trimEnd P s) = hd s"
  by (metis trimEnd_take hd_take length_greater_0_conv)

lemma slugChar_hyphen: "isSlugChar 45"
  by (simp add: isSlugChar_def)

lemma kept_slugChar: "isKept c \<Longrightarrow> c \<noteq> 95 \<Longrightarrow> isSlugChar c"
  by (auto simp add: isKept_def isSlugChar_def isWordChar_def)

lemma normalizeSlug_finish:
  "\<exists>s. normalizeSlug config text = finishSlug (allowUnicode config) s"
  by (auto simp add: normalizeSlug_def finishSlug_def Let_def)

lemma finishSlug_chars: "list_all isSlugChar (finishSlug u s)"
proof -
  define s4 where "s4 = replaceRuns (\<lambda>c. isSpace c \<or> c = 95) (js ''-'') s"
  define s5 where "s5 = replaceRuns (\<lambda>c. c = 45) (js ''-'') s4"
  define s6 where "s6 = replaceEach (\<lambda>c. \<not> isKept c) (if u then [] else js ''-'') s5"
  define s7 where "s7 = trimEnd (\<lambda>c. c = 45 \<or> c = 46) (trimStart (\<lambda>c. c = 45 \<or> c = 46) s6)"
  define s8 where "s8 = replaceRuns (\<lambda>c. c = 45) (js ''-'') s7"
  have fin: "finishSlug u s = trimEnd (\<lambda>c. \<not> isAlnum c) (trimStart (\<lambda>c. \<not> isAlnum c) s8)"
    by (simp add: finishSlug_def s4_def s5_def s6_def s7_def s8_def)
  have 4: "\<forall>c\<in>set s4. c \<noteq> 95"
    using set_replaceRuns[of "\<lambda>c. isSpace c \<or> c = 95" "js ''-''" s] unfolding s4_def
    by (auto simp add: js_def)
  have 5: "\<forall>c\<in>set s5. c \<noteq> 95"
    using set_replaceRuns[of "\<lambda>c. c = 45" "js ''-''" s4] 4 unfolding s5_def
    by (auto simp add: js_def)
  have 6: "\<forall>c\<in>set s6. isSlugChar c"
    using set_replaceEach[of "\<lambda>c. \<not> isKept c" "if u then [] else js ''-''" s5] 5 unfolding s6_def
    by (auto simp add: js_def slugChar_hyphen kept_slugChar split: if_splits)
  have 7: "\<forall>c\<in>set s7. isSlugChar c"
    using 6 set_trimEnd[of "\<lambda>c. c = 45 \<or> c = 46" "trimStart (\<lambda>c. c = 45 \<or> c = 46) s6"]
      set_trimStart[of "\<lambda>c. c = 45 \<or> c = 46" s6] unfolding s7_def by blast
  have 8: "\<forall>c\<in>set s8. isSlugChar c"
    using set_replaceRuns[of "\<lambda>c. c = 45" "js ''-''" s7] 7 unfolding s8_def
    by (auto simp add: js_def slugChar_hyphen)
  have "\<forall>c\<in>set (finishSlug u s). isSlugChar c"
    using 8 set_trimEnd[of "\<lambda>c. \<not> isAlnum c" "trimStart (\<lambda>c. \<not> isAlnum c) s8"]
      set_trimStart[of "\<lambda>c. \<not> isAlnum c" s8] unfolding fin by blast
  then show ?thesis by (simp add: list_all_iff)
qed

lemma finishSlug_ends:
  assumes "finishSlug u s \<noteq> []"
  shows "isAlnum (hd (finishSlug u s)) \<and> isAlnum (last (finishSlug u s))"
proof -
  obtain t where fin: "finishSlug u s = trimEnd (\<lambda>c. \<not> isAlnum c) (trimStart (\<lambda>c. \<not> isAlnum c) t)"
    by (simp add: finishSlug_def)
  from assms fin have ne: "trimStart (\<lambda>c. \<not> isAlnum c) t \<noteq> []"
    by (auto simp add: trimEnd_def)
  have "isAlnum (hd (trimStart (\<lambda>c. \<not> isAlnum c) t))"
    using hd_trimStart[OF ne] by simp
  moreover have "hd (finishSlug u s) = hd (trimStart (\<lambda>c. \<not> isAlnum c) t)"
    using assms unfolding fin by (rule hd_trimEnd)
  moreover have "isAlnum (last (finishSlug u s))"
    using assms last_trimEnd[of "\<lambda>c. \<not> isAlnum c" "trimStart (\<lambda>c. \<not> isAlnum c) t"]
    unfolding fin by simp
  ultimately show ?thesis by simp
qed

lemma finishSlug_noDoubleHyphen: "noDoubleHyphen (finishSlug u s)"
  unfolding finishSlug_def
  by (intro noDoubleHyphen_trimEnd noDoubleHyphen_trimStart noDoubleHyphen_collapse)

lemma truncateSlug_short: "length sl \<le> n \<Longrightarrow> truncateSlug n sl = sl"
  by (simp add: truncateSlug_def)

lemma randomChars_alnum: "list_all (\<lambda>c. isAlnum c \<and> c \<noteq> 45) randomChars"
  by (simp add: randomChars_def js_def isAlnum_def isAlpha_def isDigit_def)

lemma length_randomChars: "length randomChars = 36"
  by (simp add: randomChars_def js_def)

lemma generateRandomString_eq:
  "validDraws n draws \<Longrightarrow> generateRandomString n draws = map (\<lambda>d. randomChars ! d) draws"
  by (induction draws arbitrary: n)
     (auto simp add: validDraws_def generateRandomString_def charAt_def length_randomChars)

lemma generateRandomString_length:
  "validDraws n draws \<Longrightarrow> length (generateRandomString n draws) = n"
  by (simp add: generateRandomString_eq) (simp add: validDraws_def)

lemma generateRandomString_chars:
  assumes "validDraws n draws"
  shows "\<forall>c\<in>set (generateRandomString n draws). isAlnum c \<and> c \<noteq> 45"
proof -
  have "\<forall>d<36. isAlnum (randomChars ! d) \<and> randomChars ! d \<noteq> 45"
    using randomChars_alnum by (simp add: list_all_length length_randomChars)
  then show ?thesis
    using assms by (auto simp add: generateRandomString_eq validDraws_def list_all_iff)
qed

lemma reservedWords_no_hyphen: "\<forall>w\<in>set reservedWords. 45 \<notin> set w"
  by (simp add: reservedWords_def js_def)

lemma lowerUnit_hyphen: "lowerUnit 45 = [45]"
  by (simp add: lowerUnit_def)

lemma hyphen_not_reserved: "45 \<in> set sl \<Longrightarrow> \<not> isReservedSlug sl"
proof -
  assume "45 \<in> set sl"
  then have "45 \<in> set (toLowerCase sl)"
    by (auto simp add: toLowerCase_def intro!: bexI[of _ 45] simp: lowerUnit_hyphen)
  then show ?thesis
    using reservedWords_no_hyphen by (auto simp add: isReservedSlug_def)
qed

lemma noDoubleHyphen_no_hyphen: "45 \<notin> set s \<Longrightarrow> noDoubleHyphen s"
  by (induction s rule: noDoubleHyphen.induct) auto

lemma fallback_valid:
  assumes "validDraws 6 draws"
  shows "isValid (validateSlug (js ''post-'' @ generateRandomString 6 draws))"
proof -
  let ?r = "generateRandomString 6 draws"
  have len: "length ?r = 6" using assms by (rule generateRandomString_length)
  have chars: "\<forall>c\<in>set ?r. isAlnum c \<and> c \<noteq> 45" using assms by (rule generateRandomString_chars)
  have ne: "?r \<noteq> []" using len by auto
  have "list_all isSlugChar (js ''post-'' @ ?r)"
    using chars by (auto simp add: js_def list_all_iff isSlugChar_def isAlnum_def isAlpha_def)
  moreover have "isAlnum (hd (js ''post-'' @ ?r))"
    by (simp add: js_def isAlnum_def isAlpha_def)
  moreover have "isAlnum (last (js ''post-'' @ ?r))"
    using chars ne by simp
  moreover have "noDoubleHyphen (js ''post-'' @ ?r)"
  proof -
    have "noDoubleHyphen ?r" using chars by (intro noDoubleHyphen_no_hyphen) auto
    moreover have "hd ?r \<noteq> 45" using chars ne by auto
    ultimately show ?thesis using ne by (cases ?r) (auto simp add: js_def)
  qed
  moreover have "\<not> isReservedSlug (js ''post-'' @ ?r)"
    by (rule hyphen_not_reserved) (simp add: js_def)
  ultimately show ?thesis
    using len by (simp add: validateSlug_isValid_iff includes_double_hyphen) (simp add: js_def)
qed

lemma truncateSlug_take:
  "\<exists>k. truncateSlug m sl = take k sl \<and>
       (length sl \<le> m \<and> k = length sl \<or> m < length sl \<and> k \<le> m \<and> (k = m \<or> 7 * m < 10 * k))"
proof (cases "length sl \<le> m")
  case True
  then show ?thesis by (intro exI[of _ "length sl"]) (simp add: truncateSlug_def)
next
  case False
  then have long: "m < length sl" by simp
  show ?thesis
  proof (cases "lastIndexOf 45 (take m sl)")
    case None
    then show ?thesis using long by (intro exI[of _ m]) (simp add: truncateSlug_def)
  next
    case (Some lastDash)
    show ?thesis
    proof (cases "7 * m < 10 * lastDash")
      case True
      have "truncateSlug m sl = take (min lastDash m) sl"
        using long Some True by (simp add: truncateSlug_def)
      moreover have "min lastDash m = m \<or> 7 * m < 10 * min lastDash m"
        using True by (cases "lastDash \<le> m") (simp_all add: min_def)
      ultimately show ?thesis using long by (intro exI[of _ "min lastDash m"]) auto
    next
      case False
      then show ?thesis using long Some by (intro exI[of _ m]) (simp add: truncateSlug_def)
    qed
  qed
qed

lemma list_all_take: "list_all P s \<Longrightarrow> list_all P (take k s)"
  by (auto simp add: list_all_iff dest: in_set_takeD)

text \<open>
  What holds of the slug before the minimum length is looked at, whether it was cut off
  or not: at most 80 characters, allowed characters only, no consecutive hyphens, and an
  alphanumeric first character unless the slug is empty. A slug that was cut off has at
  least 57 characters.
\<close>

lemma truncated_structure:
  "length (truncateSlug 80 (finishSlug u s)) \<le> 80 \<and>
   list_all isSlugChar (truncateSlug 80 (finishSlug u s)) \<and>
   noDoubleHyphen (truncateSlug 80 (finishSlug u s)) \<and>
   (truncateSlug 80 (finishSlug u s) \<noteq> [] \<longrightarrow> isAlnum (hd (truncateSlug 80 (finishSlug u s)))) \<and>
   (80 < length (finishSlug u s) \<longrightarrow> 57 \<le> length (truncateSlug 80 (finishSlug u s)))"
proof -
  obtain k where k: "truncateSlug 80 (finishSlug u s) = take k (finishSlug u s)"
    and range: "length (finishSlug u s) \<le> 80 \<and> k = length (finishSlug u s) \<or>
                80 < length (finishSlug u s) \<and> k \<le> 80 \<and> (k = 80 \<or> 7 * 80 < 10 * k)"
    using truncateSlug_take[of 80 "finishSlug u s"] by blast
  have "length (take k (finishSlug u s)) \<le> 80" using range by auto
  moreover have "list_all isSlugChar (take k (finishSlug u s))"
    by (intro list_all_take finishSlug_chars)
  moreover have "noDoubleHyphen (take k (finishSlug u s))"
    by (intro noDoubleHyphen_take finishSlug_noDoubleHyphen)
  moreover have "take k (finishSlug u s) \<noteq> [] \<longrightarrow> isAlnum (hd (take k (finishSlug u s)))"
  proof
    assume ne: "take k (finishSlug u s) \<noteq> []"
    then have "0 < k" "finishSlug u s \<noteq> []" by auto
    then show "isAlnum (hd (take k (finishSlug u s)))"
      using finishSlug_ends[of u s] by (simp add: hd_take)
  qed
  moreover have "80 < length (finishSlug u s) \<longrightarrow> 57 \<le> length (take k (finishSlug u s))"
    using range by auto
  ultimately show ?thesis unfolding k by blast
qed

text \<open>
  Claim C4, as the code has it. \<open>generateSlug\<close> throws on the empty string, never looks at
  the reserved words, and trims the ends before it cuts the slug to 80 characters. For
  every non-empty string it returns a slug of 3 to 80 characters that consists of allowed
  characters only, starts with a letter or digit and has no consecutive hyphens, whether
  or not the slug was cut and whether or not it is a reserved word. \<open>validateSlug\<close>
  accepts that slug exactly when its last character is a letter or digit and it is not a
  reserved word; the last character is a letter or digit whenever the normalized form has
  at most 80 characters, so that nothing was cut off. When the normalized form has fewer
  than 3 characters the slug is \<open>post-\<close> followed by the six random characters, and that
  slug always validates.
\<close>

theorem generateSlug_validates:
  assumes "text \<noteq> []" and "validDraws 6 draws"
  shows "\<exists>sl. generateSlug defaultOptions draws text = Inr sl \<and>
           3 \<le> length sl \<and> length sl \<le> 80 \<and> list_all isSlugChar sl \<and> isAlnum (hd sl) \<and>
           \<not> includesStr sl (js ''--'') \<and>
           (isValid (validateSlug sl) \<longleftrightarrow> isAlnum (last sl) \<and> \<not> isReservedSlug sl) \<and>
           (length (normalizeSlug defaultOptions text) \<le> 80 \<longrightarrow> isAlnum (last sl)) \<and>
           (length (normalizeSlug defaultOptions text) < 3 \<longrightarrow>
              sl = js ''post-'' @ generateRandomString 6 draws \<and> isValid (validateSlug sl))"
proof -
  let ?n = "normalizeSlug defaultOptions text"
  let ?t = "truncateSlug 80 ?n"
  let ?f = "js ''post-'' @ generateRandomString 6 draws"
  obtain s where n: "?n = finishSlug (allowUnicode defaultOptions) s"
    using normalizeSlug_finish by blast
  have m: "maxLength defaultOptions = 80" by (simp add: defaultOptions_def)
  have st: "length ?t \<le> 80" "list_all isSlugChar ?t" "noDoubleHyphen ?t"
    "?t \<noteq> [] \<longrightarrow> isAlnum (hd ?t)" "80 < length ?n \<longrightarrow> 57 \<le> length ?t"
    unfolding n using truncated_structure[of "allowUnicode defaultOptions" s] by blast+
  show ?thesis
  proof (cases "length ?t < 3")
    case True
    then have short: "length ?n \<le> 80" using st(5) by auto
    have gen: "generateSlug defaultOptions draws text = Inr ?f"
      using assms(1) True by (simp add: generateSlug_def Let_def m)
    have v: "isValid (validateSlug ?f)" using assms(2) by (rule fallback_valid)
    then have "3 \<le> length ?f \<and> length ?f \<le> 80 \<and> list_all isSlugChar ?f \<and> isAlnum (hd ?f) \<and>
        \<not> includesStr ?f (js ''--'') \<and> isAlnum (last ?f) \<and> \<not> isReservedSlug ?f"
      by (simp add: validateSlug_isValid_iff)
    with gen v show ?thesis by blast
  next
    case False
    then have len: "3 \<le> length ?t" and ne: "?t \<noteq> []" by auto
    have gen: "generateSlug defaultOptions draws text = Inr ?t"
      using assms(1) False by (simp add: generateSlug_def Let_def m)
    have hd: "isAlnum (hd ?t)" using st(4) ne by simp
    have dh: "\<not> includesStr ?t (js ''--'')" using st(3) by (simp add: includes_double_hyphen)
    have iff: "isValid (validateSlug ?t) \<longleftrightarrow> isAlnum (last ?t) \<and> \<not> isReservedSlug ?t"
      using len ne st(1,2) hd dh by (simp add: validateSlug_isValid_iff)
    have uncut: "length ?n \<le> 80 \<longrightarrow> isAlnum (last ?t)"
    proof
      assume le: "length ?n \<le> 80"
      then have same: "?t = ?n" by (simp add: truncateSlug_short)
      then have "?n \<noteq> []" using ne by simp
      then have "isAlnum (last ?n)" unfolding n using finishSlug_ends by blast
      then show "isAlnum (last ?t)" using same by simp
    qed
    have long: "\<not> length ?n < 3"
    proof
      assume "length ?n < 3"
      then have "?t = ?n" by (simp add: truncateSlug_short)
      then show False using len \<open>length ?n < 3\<close> by simp
    qed
    from gen len st(1,2) hd dh iff uncut long show ?thesis by blast
  qed
qed

lemmas slug_eval = generateSlug_def normalizeSlug_def truncateSlug_def defaultOptions_def
  applyCustomReplacements_def stripDiacritics_def toLowerCase_def lowerUnit_def replaceRuns_def
  replaceEach_def trimStart_def trimEnd_def isSpace_def isKept_def isWordChar_def isAlnum_def
  isAlpha_def isDigit_def js_def Let_def lastIndexOf_def generateRandomString_def charAt_def
  randomChars_def

text \<open>
  Claim C4, witness: \<open>Hello World\<close> becomes \<open>hello-world\<close>, which has 11 allowed characters
  and validates; \<open>Hi\<close> falls back to \<open>post-abcdef\<close> (for the draws 0 to 5), which validates.
\<close>

theorem generateSlug_validates_witness:
  "generateSlug defaultOptions [0, 1, 2, 3, 4, 5] (js ''Hello World'') = Inr (js ''hello-world'') \<and>
   length (normalizeSlug defaultOptions (js ''Hello World'')) \<le> 80 \<and>
   list_all isSlugChar (js ''hello-world'') \<and> isAlnum (last (js ''hello-world'')) \<and>
   isValid (validateSlug (js ''hello-world'')) \<and>
   length (normalizeSlug defaultOptions (js ''Hi'')) < 3 \<and>
   generateSlug defaultOptions [0, 1, 2, 3, 4, 5] (js ''Hi'') = Inr (js ''post-abcdef'') \<and>
   isValid (validateSlug (js ''post-abcdef''))"
proof -
  let ?d = "[0, 1, 2, 3, 4, 5] :: nat list"
  have v: "validDraws 6 ?d" by (simp add: validDraws_def)
  have n1: "normalizeSlug defaultOptions (js ''Hello World'') = js ''hello-world''"
    by (simp add: slug_eval)
  have n2: "normalizeSlug defaultOptions (js ''Hi'') = js ''hi''"
    by (simp add: slug_eval)
  have g1: "generateSlug defaultOptions ?d (js ''Hello World'') = Inr (js ''hello-world'')"
    by (simp add: slug_eval)
  have r: "js ''post-'' @ generateRandomString 6 ?d = js ''post-abcdef''"
    by (simp add: generateRandomString_def charAt_def randomChars_def js_def)
  have nr: "\<not> isReservedSlug (js ''hello-world'')"
    by (rule hyphen_not_reserved) (simp add: js_def)
  have l1: "length (normalizeSlug defaultOptions (js ''Hello World'')) \<le> 80"
    unfolding n1 by (simp add: js_def)
  have l2: "length (normalizeSlug defaultOptions (js ''Hi'')) < 3"
    unfolding n2 by (simp add: js_def)
  have t1: "js ''Hello World'' \<noteq> []" and t2: "js ''Hi'' \<noteq> []" by (simp_all add: js_def)
  from generateSlug_validates[OF t1 v] g1 nr l1
  have a: "list_all isSlugChar (js ''hello-world'') \<and> isAlnum (last (js ''hello-world'')) \<and>
           isValid (validateSlug (js ''hello-world''))"
    by auto
  from generateSlug_validates[OF t2 v] l2
  have b: "generateSlug defaultOptions ?d (js ''Hi'') = Inr (js ''post-abcdef'')
           \<and> isValid (validateSlug (js ''post-abcdef''))"
    unfolding r by auto
  from g1 l1 a l2 b show ?thesis by blast
qed

lemma stripTags_plain: "60 \<notin> set s \<Longrightarrow> stripTags s = s"
  by (induction s) auto

lemma replaceRunsFrom_none: "\<forall>c\<in>set s. \<not> P c \<Longrightarrow> replaceRunsFrom P r False s = s"
  by (induction s) auto

lemma replaceRuns_none: "\<forall>c\<in>set s. \<not> P c \<Longrightarrow> replaceRuns P r s = s"
  by (simp add: replaceRuns_def replaceRunsFrom_none)

lemma replaceEach_none: "\<forall>c\<in>set s. \<not> P c \<Longrightarrow> replaceEach P r s = s"
  by (induction s) (auto simp add: replaceEach_def)

lemma trimStart_none: "s \<noteq> [] \<Longrightarrow> \<not> P (hd s) \<Longrightarrow> trimStart P s = s"
  by (cases s) (auto simp add: trimStart_def)

lemma trimEnd_none: "s \<noteq> [] \<Longrightarrow> \<not> P (last s) \<Longrightarrow> trimEnd P s = s"
  by (cases s rule: rev_cases) (auto simp add: trimEnd_def)


lemma concat_map_single: "\<forall>c\<in>set s. f c = [c] \<Longrightarrow> concat (map f s) = s"
  by (induction s) auto

lemma normalizeSlug_plain:
  assumes "\<forall>c\<in>set s. plainUnit c" and "s \<noteq> []" and "isAlnum (hd s)" and "isAlnum (last s)"
  shows "normalizeSlug defaultOptions s = s"
proof -
  have tags: "stripTags s = s" using assms(1) by (intro stripTags_plain) (auto simp add: plainUnit_def isDigit_def)
  have dia: "stripDiacritics s = s"
    unfolding stripDiacritics_def using assms(1)
    by (intro concat_map_single) (auto simp add: plainUnit_def isDigit_def)
  have low: "toLowerCase s = s"
    unfolding toLowerCase_def using assms(1)
    by (intro concat_map_single) (auto simp add: plainUnit_def isDigit_def lowerUnit_def)
  have r1: "replaceRuns (\<lambda>c. isSpace c \<or> c = 95) (js ''-'') s = s"
    using assms(1) by (intro replaceRuns_none) (auto simp add: plainUnit_def isDigit_def isSpace_def)
  have r2: "replaceRuns (\<lambda>c. c = 45) (js ''-'') s = s"
    using assms(1) by (intro replaceRuns_none) (auto simp add: plainUnit_def isDigit_def)
  have r3: "replaceEach (\<lambda>c. \<not> isKept c) (js ''-'') s = s"
    using assms(1)
    by (intro replaceEach_none)
       (auto simp add: plainUnit_def isKept_def isWordChar_def isAlnum_def isAlpha_def)
  have e1: "\<not> (hd s = 45 \<or> hd s = 46)" "\<not> (last s = 45 \<or> last s = 46)"
    using assms(3,4) by (auto simp add: isAlnum_def isAlpha_def isDigit_def)
  have t1: "trimEnd (\<lambda>c. c = 45 \<or> c = 46) (trimStart (\<lambda>c. c = 45 \<or> c = 46) s) = s"
    using assms(2) e1 by (simp add: trimStart_none trimEnd_none)
  have t2: "trimEnd (\<lambda>c. \<not> isAlnum c) (trimStart (\<lambda>c. \<not> isAlnum c) s) = s"
    using assms(2,3,4) by (simp add: trimStart_none trimEnd_none)
  show ?thesis
    by (simp add: normalizeSlug_def defaultOptions_def applyCustomReplacements_def Let_def
          tags dia low r1 r2 r3 t1 t2)
qed

text \<open>
  A slug that is cut: 79 times \<open>a\<close> followed by \<open>.b\<close> is its own normalized form, of 81
  characters; the first 80 are kept, and the result ends with the dot.
\<close>

lemma generateSlug_cut_example:
  "generateSlug defaultOptions draws (replicate 79 97 @ js ''.b'') = Inr (replicate 79 97 @ js ''.'') \<and>
   \<not> isAlnum (last (replicate 79 97 @ js ''.'')) \<and>
   \<not> isValid (validateSlug (replicate 79 97 @ js ''.''))"
proof -
  let ?s = "replicate 79 (97::nat) @ js ''.b''"
  have n: "normalizeSlug defaultOptions ?s = ?s"
    by (rule normalizeSlug_plain)
       (auto simp add: plainUnit_def js_def isAlnum_def isAlpha_def hd_append)
  have no: "45 \<notin> set (replicate 79 (97::nat) @ js ''.'')" by (simp add: js_def)
  have cut: "take 80 ?s = replicate 79 97 @ js ''.''" by (simp add: js_def)
  have t: "truncateSlug 80 ?s = replicate 79 97 @ js ''.''"
    using no by (simp add: truncateSlug_def cut lastIndexOf_def Let_def) (simp add: js_def)
  have m: "maxLength defaultOptions = 80" by (simp add: defaultOptions_def)
  have "?s \<noteq> []" "\<not> length (replicate 79 (97::nat) @ js ''.'') < 3" by (simp_all add: js_def)
  then have "generateSlug defaultOptions draws ?s = Inr (replicate 79 97 @ js ''.'')"
    by (simp add: generateSlug_def Let_def m n t)
  moreover have l: "\<not> isAlnum (last (replicate 79 97 @ js ''.''))"
    by (simp add: js_def isAlnum_def isAlpha_def isDigit_def)
  ultimately show ?thesis using l by (simp add: validateSlug_isValid_iff)
qed

text \<open>
  Claim C4, counterexample to the claim as stated: \<open>admin\<close> is returned unchanged and is a
  reserved word, so \<open>validateSlug(generateSlug('admin'))\<close> fails.
\<close>

theorem generateSlug_reserved_counterexample:
  "generateSlug defaultOptions [0, 1, 2, 3, 4, 5] (js ''admin'') = Inr (js ''admin'') \<and>
   \<not> isValid (validateSlug (js ''admin''))"
proof -
  have "generateSlug defaultOptions [0, 1, 2, 3, 4, 5] (js ''admin'') = Inr (js ''admin'')"
    by (simp add: slug_eval)
  moreover have "isReservedSlug (js ''admin'')"
    by (simp add: isReservedSlug_def reservedWords_def toLowerCase_def lowerUnit_def js_def)
  ultimately show ?thesis by (simp add: validateSlug_isValid_iff)
qed

section \<open>Unique slugs\<close>

lemma uniqueLoop_free:
  "\<not> P sl \<Longrightarrow> uniqueLoop P r b sl c asked = (sl, asked @ [sl])"
  by (subst uniqueLoop.simps) simp

lemma uniqueLoop_step:
  "P sl \<Longrightarrow> c \<le> 100 \<Longrightarrow>
   uniqueLoop P r b sl c asked = uniqueLoop P r b (numbered b c) (Suc c) (asked @ [sl])"
  by (subst uniqueLoop.simps) (simp add: maxAttempts_def numbered_def)

lemma uniqueLoop_exhausted:
  "P sl \<Longrightarrow> c > 100 \<Longrightarrow>
   uniqueLoop P r b sl c asked = (b @ js ''-'' @ generateRandomString 8 r, asked @ [sl])"
  by (subst uniqueLoop.simps) (simp add: maxAttempts_def)

lemma uniqueLoop_first_free:
  assumes "P sl" "c \<le> n" "n \<le> 100" "\<not> P (numbered b n)"
    and "\<forall>k. c \<le> k \<and> k < n \<longrightarrow> P (numbered b k)"
  shows "uniqueLoop P r b sl c asked =
           (numbered b n, asked @ sl # map (numbered b) [c..<Suc n])"
  using assms
proof (induction "n - c" arbitrary: c sl asked)
  case 0
  then have "c = n" by simp
  with 0 show ?case
    by (simp add: uniqueLoop_step uniqueLoop_free upt_rec)
next
  case (Suc d)
  then have lt: "c < n" by simp
  with Suc.prems have Pc: "P (numbered b c)" by simp
  have "uniqueLoop P r b (numbered b c) (Suc c) (asked @ [sl]) =
          (numbered b n, (asked @ [sl]) @ numbered b c # map (numbered b) [Suc c..<Suc n])"
    using Suc.hyps(2) Suc.prems lt Pc by (intro Suc.hyps(1)) auto
  moreover have "[c..<Suc n] = c # [Suc c..<Suc n]"
    using lt by (simp add: upt_rec)
  ultimately show ?case
    using Suc.prems lt by (simp add: uniqueLoop_step)
qed

lemma uniqueLoop_all_taken:
  assumes "P sl" "c \<le> 101" "\<forall>k. c \<le> k \<and> k \<le> 100 \<longrightarrow> P (numbered b k)"
  shows "uniqueLoop P r b sl c asked =
           (b @ js ''-'' @ generateRandomString 8 r, asked @ sl # map (numbered b) [c..<101])"
  using assms
proof (induction "101 - c" arbitrary: c sl asked)
  case 0
  then have "c = 101" by simp
  with 0 show ?case by (simp add: uniqueLoop_exhausted)
next
  case (Suc d)
  then have le: "c \<le> 100" by simp
  with Suc.prems have Pc: "P (numbered b c)" by simp
  have "uniqueLoop P r b (numbered b c) (Suc c) (asked @ [sl]) =
          (b @ js ''-'' @ generateRandomString 8 r, (asked @ [sl]) @ numbered b c # map (numbered b) [Suc c..<101])"
    using Suc.hyps(2) Suc.prems le Pc by (intro Suc.hyps(1)) auto
  moreover have "[c..<101] = c # [Suc c..<101]"
    using le by (simp add: upt_rec)
  ultimately show ?case
    using Suc.prems le by (simp add: uniqueLoop_step)
qed

lemma uniqueLoop_trace:
  "c \<le> 101 \<Longrightarrow> \<exists>m. m \<le> 101 - c \<and>
     snd (uniqueLoop P r b sl c asked) = asked @ sl # map (numbered b) (take m [c..<101])"
proof (induction "101 - c" arbitrary: c sl asked)
  case 0
  then have c: "c = 101" by simp
  show ?case
  proof (cases "P sl")
    case True
    then show ?thesis using c by (intro exI[of _ 0]) (simp add: uniqueLoop_exhausted)
  next
    case False
    then show ?thesis by (intro exI[of _ 0]) (simp add: uniqueLoop_free)
  qed
next
  case (Suc d)
  then have le: "c \<le> 100" by simp
  show ?case
  proof (cases "P sl")
    case False
    then show ?thesis by (intro exI[of _ 0]) (simp add: uniqueLoop_free)
  next
    case True
    have "101 - Suc c = d" "Suc c \<le> 101" using Suc.hyps(2) le by simp_all
    then have "\<exists>m. m \<le> 101 - Suc c \<and>
         snd (uniqueLoop P r b (numbered b c) (Suc c) (asked @ [sl])) =
           (asked @ [sl]) @ numbered b c # map (numbered b) (take m [Suc c..<101])"
      using Suc.hyps(1)[of "Suc c" "numbered b c" "asked @ [sl]"] by blast
    then obtain m where m: "m \<le> 101 - Suc c"
      and eq: "snd (uniqueLoop P r b (numbered b c) (Suc c) (asked @ [sl])) =
                 (asked @ [sl]) @ numbered b c # map (numbered b) (take m [Suc c..<101])"
      by blast
    have "[c..<101] = c # [Suc c..<101]" using le by (simp add: upt_rec)
    then have "take (Suc m) [c..<101] = c # take m [Suc c..<101]" by simp
    with m eq True le show ?thesis
      by (intro exI[of _ "Suc m"]) (simp add: uniqueLoop_step)
  qed
qed

lemma numberToString_nonempty: "numberToString n \<noteq> []"
  by (subst numberToString.simps) simp

lemma numberToString_inj: "numberToString n = numberToString m \<Longrightarrow> n = m"
proof (induction n arbitrary: m rule: numberToString.induct)
  case (1 n)
  show ?case
  proof (cases "n < 10")
    case True
    note n = this
    show ?thesis
    proof (cases "m < 10")
      case True
      with n "1.prems" show ?thesis
        by (subst (asm) numberToString.simps, subst (asm) (2) numberToString.simps) simp
    next
      case False
      with n "1.prems" have "[48 + n] = numberToString (m div 10) @ [48 + m mod 10]"
        by (subst (asm) numberToString.simps, subst (asm) (2) numberToString.simps) simp
      then show ?thesis using numberToString_nonempty[of "m div 10"] by simp
    qed
  next
    case False
    note n = this
    show ?thesis
    proof (cases "m < 10")
      case True
      with n "1.prems" have "numberToString (n div 10) @ [48 + n mod 10] = [48 + m]"
        by (subst (asm) numberToString.simps, subst (asm) (2) numberToString.simps) simp
      then show ?thesis using numberToString_nonempty[of "n div 10"] by simp
    next
      case False
      with n "1.prems" have
        "numberToString (n div 10) @ [48 + n mod 10] = numberToString (m div 10) @ [48 + m mod 10]"
        by (subst (asm) numberToString.simps, subst (asm) (2) numberToString.simps) simp
      then have "numberToString (n div 10) = numberToString (m div 10)" and "n mod 10 = m mod 10"
        by simp_all
      with "1.IH"[OF n] have "n div 10 = m div 10" by blast
      with \<open>n mod 10 = m mod 10\<close> show ?thesis
        by (metis div_mult_mod_eq)
    qed
  qed
qed

lemma numbered_inj: "numbered b n = numbered b m \<Longrightarrow> n = m"
  by (simp add: numbered_def numberToString_inj)

lemma numbered_neq_base: "numbered b n \<noteq> b"
  by (simp add: numbered_def js_def)

lemma length_numberToString: "n < 1000 \<Longrightarrow> length (numberToString n) \<le> 3"
  by (subst numberToString.simps, subst numberToString.simps, subst numberToString.simps) auto

lemma fallback_not_asked:
  assumes "validDraws 8 draws"
  shows "b @ js ''-'' @ generateRandomString 8 draws \<notin> set (b # map (numbered b) [1..<101])"
proof
  assume mem: "b @ js ''-'' @ generateRandomString 8 draws \<in> set (b # map (numbered b) [1..<101])"
  have len: "length (generateRandomString 8 draws) = 8"
    using assms by (rule generateRandomString_length)
  have "b @ js ''-'' @ generateRandomString 8 draws \<noteq> b" by (simp add: js_def)
  with mem obtain k where k: "k < 101"
    and eq: "b @ js ''-'' @ generateRandomString 8 draws = numbered b k"
    by (auto simp del: upt_rec_numeral)
  from eq have "generateRandomString 8 draws = numberToString k" by (simp add: numbered_def)
  then have "length (numberToString k) = 8" using len by simp
  moreover have "length (numberToString k) \<le> 3" using k by (intro length_numberToString) simp
  ultimately show False by simp
qed

text \<open>
  Claim C8, as the code has it. \<open>generateUniqueSlug\<close> returns the base slug when the
  predicate is false for it; otherwise it returns the first \<open>base-N\<close> with N from 1 to 100
  for which the predicate is false; and when the base and all of \<open>base-1\<close> to \<open>base-100\<close>
  exist it returns \<open>base-\<close> followed by eight random characters.
\<close>

theorem generateUniqueSlug_first_free:
  "(\<not> existsCallback baseSlug \<longrightarrow>
      generateUniqueSlug existsCallback draws baseSlug = baseSlug) \<and>
   (existsCallback baseSlug \<and> 1 \<le> n \<and> n \<le> 100 \<and> \<not> existsCallback (numbered baseSlug n) \<and>
    (\<forall>k. 1 \<le> k \<and> k < n \<longrightarrow> existsCallback (numbered baseSlug k)) \<longrightarrow>
      generateUniqueSlug existsCallback draws baseSlug = numbered baseSlug n) \<and>
   (existsCallback baseSlug \<and> (\<forall>k. 1 \<le> k \<and> k \<le> 100 \<longrightarrow> existsCallback (numbered baseSlug k)) \<longrightarrow>
      generateUniqueSlug existsCallback draws baseSlug =
        baseSlug @ js ''-'' @ generateRandomString 8 draws)"
proof (intro conjI impI)
  assume "\<not> existsCallback baseSlug"
  then show "generateUniqueSlug existsCallback draws baseSlug = baseSlug"
    by (simp add: generateUniqueSlug_def generateUniqueSlugTraced_def uniqueLoop_free)
next
  assume a: "existsCallback baseSlug \<and> 1 \<le> n \<and> n \<le> 100 \<and> \<not> existsCallback (numbered baseSlug n) \<and>
    (\<forall>k. 1 \<le> k \<and> k < n \<longrightarrow> existsCallback (numbered baseSlug k))"
  then have "uniqueLoop existsCallback draws baseSlug baseSlug 1 [] =
      (numbered baseSlug n, [] @ baseSlug # map (numbered baseSlug) [1..<Suc n])"
    by (intro uniqueLoop_first_free) simp_all
  then show "generateUniqueSlug existsCallback draws baseSlug = numbered baseSlug n"
    by (simp add: generateUniqueSlug_def generateUniqueSlugTraced_def)
next
  assume a: "existsCallback baseSlug \<and> (\<forall>k. 1 \<le> k \<and> k \<le> 100 \<longrightarrow> existsCallback (numbered baseSlug k))"
  then have "uniqueLoop existsCallback draws baseSlug baseSlug 1 [] =
      (baseSlug @ js ''-'' @ generateRandomString 8 draws, [] @ baseSlug # map (numbered baseSlug) [1..<101])"
    by (intro uniqueLoop_all_taken) simp_all
  then show "generateUniqueSlug existsCallback draws baseSlug =
      baseSlug @ js ''-'' @ generateRandomString 8 draws"
    by (simp add: generateUniqueSlug_def generateUniqueSlugTraced_def del: upt_rec_numeral)
qed

lemma random8_example: "generateRandomString 8 [0, 1, 2, 3, 4, 5, 6, 7] = js ''abcdefgh''"
  by (simp add: generateRandomString_def charAt_def randomChars_def js_def)

text \<open>
  Claim C8, witness: a predicate true exactly on \<open>x\<close>, \<open>x-1\<close> and \<open>x-2\<close> gives \<open>x-3\<close>; a
  predicate that is never true gives \<open>x\<close>; one that is always true gives the random
  fallback.
\<close>

theorem generateUniqueSlug_first_free_witness:
  "generateUniqueSlug (\<lambda>s. s \<in> {js ''x'', js ''x-1'', js ''x-2''}) [0, 1, 2, 3, 4, 5, 6, 7] (js ''x'')
     = js ''x-3'' \<and>
   generateUniqueSlug (\<lambda>s. False) [0, 1, 2, 3, 4, 5, 6, 7] (js ''x'') = js ''x'' \<and>
   generateUniqueSlug (\<lambda>s. True) [0, 1, 2, 3, 4, 5, 6, 7] (js ''x'') = js ''x-abcdefgh''"
proof -
  let ?P = "\<lambda>s. s \<in> {js ''x'', js ''x-1'', js ''x-2''}"
  have n1: "numbered (js ''x'') 1 = js ''x-1''" and n2: "numbered (js ''x'') 2 = js ''x-2''"
    and n3: "numbered (js ''x'') 3 = js ''x-3''"
    by (simp_all add: numbered_def js_def numberToString.simps)
  have low: "k = 1 \<or> k = 2" if "1 \<le> k \<and> k < 3" for k :: nat using that by auto
  have p0: "?P (js ''x'')" by simp
  have ar: "(1::nat) \<le> 3 \<and> (3::nat) \<le> 100" by simp
  have p3: "\<not> ?P (numbered (js ''x'') 3)" unfolding n3 by (simp add: js_def)
  have pk: "\<forall>k. 1 \<le> k \<and> k < 3 \<longrightarrow> ?P (numbered (js ''x'') k)"
    using low n1 n2 by blast
  have "generateUniqueSlug ?P [0, 1, 2, 3, 4, 5, 6, 7] (js ''x'') = numbered (js ''x'') 3"
    using generateUniqueSlug_first_free[of ?P "js ''x''" "[0, 1, 2, 3, 4, 5, 6, 7]" 3] p0 p3 pk ar
    by blast
  then have a: "generateUniqueSlug ?P [0, 1, 2, 3, 4, 5, 6, 7] (js ''x'') = js ''x-3''"
    by (simp only: n3)
  have b: "generateUniqueSlug (\<lambda>s. False) [0, 1, 2, 3, 4, 5, 6, 7] (js ''x'') = js ''x''"
    using generateUniqueSlug_first_free[of "\<lambda>s. False" "js ''x''" "[0, 1, 2, 3, 4, 5, 6, 7]" 1]
    by simp
  have "generateUniqueSlug (\<lambda>s. True) [0, 1, 2, 3, 4, 5, 6, 7] (js ''x'')
             = js ''x'' @ js ''-'' @ generateRandomString 8 [0, 1, 2, 3, 4, 5, 6, 7]"
    using generateUniqueSlug_first_free[of "\<lambda>s. True" "js ''x''" "[0, 1, 2, 3, 4, 5, 6, 7]" 1]
    by simp
  also have "\<dots> = js ''x-abcdefgh''"
    unfolding random8_example by (simp add: js_def)
  finally have c: "generateUniqueSlug (\<lambda>s. True) [0, 1, 2, 3, 4, 5, 6, 7] (js ''x'') = js ''x-abcdefgh''" .
  from a b c show ?thesis by blast
qed

lemma crowded_base: "crowded (js ''x'')"
  by (simp add: crowded_def del: upt_rec_numeral)

lemma crowded_numbered: "1 \<le> k \<and> k \<le> 100 \<Longrightarrow> crowded (numbered (js ''x'') k)"
  by (simp add: crowded_def del: upt_rec_numeral)

lemma not_crowded_101: "\<not> crowded (numbered (js ''x'') 101)"
  by (auto simp add: crowded_def numbered_neq_base simp del: upt_rec_numeral dest: numbered_inj)

text \<open>
  Claim C8, counterexample to the claim as stated: in a store holding \<open>x\<close> and \<open>x-1\<close> to
  \<open>x-100\<close> the first free numbered candidate is \<open>x-101\<close>, but the result is the random
  fallback \<open>x-abcdefgh\<close>.
\<close>

theorem generateUniqueSlug_unbounded_counterexample:
  "crowded (js ''x'') \<and> \<not> crowded (js ''x-101'') \<and>
   generateUniqueSlug crowded [0, 1, 2, 3, 4, 5, 6, 7] (js ''x'') = js ''x-abcdefgh''"
proof -
  have n: "numbered (js ''x'') 101 = js ''x-101''"
    by (simp add: numbered_def js_def numberToString.simps)
  have "uniqueLoop crowded [0, 1, 2, 3, 4, 5, 6, 7] (js ''x'') (js ''x'') 1 [] =
      (js ''x'' @ js ''-'' @ generateRandomString 8 [0, 1, 2, 3, 4, 5, 6, 7],
       [] @ js ''x'' # map (numbered (js ''x'')) [1..<101])"
    using crowded_base crowded_numbered by (intro uniqueLoop_all_taken) simp_all
  then have "generateUniqueSlug crowded [0, 1, 2, 3, 4, 5, 6, 7] (js ''x'') =
          js ''x'' @ js ''-'' @ generateRandomString 8 [0, 1, 2, 3, 4, 5, 6, 7]"
    by (simp add: generateUniqueSlug_def generateUniqueSlugTraced_def del: upt_rec_numeral)
  also have "\<dots> = js ''x-abcdefgh''"
    unfolding random8_example by (simp add: js_def)
  finally have g: "generateUniqueSlug crowded [0, 1, 2, 3, 4, 5, 6, 7] (js ''x'') = js ''x-abcdefgh''" .
  have "\<not> crowded (js ''x-101'')" using not_crowded_101 unfolding n .
  with g crowded_base show ?thesis by blast
qed

text \<open>
  Claim C10. For every base slug and every existence predicate the function returns, and
  the candidates the predicate was invoked on are the base followed by \<open>base-1\<close> to
  \<open>base-m\<close> for some m up to 100, at most 101 invocations. When all 101 candidates exist the
  result is \<open>base-\<close> followed by the eight random characters, the predicate has been invoked on
  exactly those 101 candidates, and the result is not among them: the fallback is never
  checked.
\<close>

theorem generateUniqueSlug_bounded:
  "(\<exists>m\<le>100. snd (generateUniqueSlugTraced existsCallback draws baseSlug) =
       baseSlug # map (numbered baseSlug) [1..<Suc m]) \<and>
   length (snd (generateUniqueSlugTraced existsCallback draws baseSlug)) \<le> 101 \<and>
   (existsCallback baseSlug \<and> (\<forall>k. 1 \<le> k \<and> k \<le> 100 \<longrightarrow> existsCallback (numbered baseSlug k)) \<longrightarrow>
      generateUniqueSlugTraced existsCallback draws baseSlug =
        (baseSlug @ js ''-'' @ generateRandomString 8 draws,
         baseSlug # map (numbered baseSlug) [1..<101]) \<and>
      (validDraws 8 draws \<longrightarrow>
         generateUniqueSlug existsCallback draws baseSlug
           \<notin> set (snd (generateUniqueSlugTraced existsCallback draws baseSlug))))"
proof -
  have "\<exists>m. m \<le> 101 - 1 \<and> snd (uniqueLoop existsCallback draws baseSlug baseSlug 1 []) =
      [] @ baseSlug # map (numbered baseSlug) (take m [1..<101])"
    by (rule uniqueLoop_trace) simp
  then obtain m where m: "m \<le> 100"
    and tr: "snd (generateUniqueSlugTraced existsCallback draws baseSlug) =
               baseSlug # map (numbered baseSlug) (take m [1..<101])"
    by (auto simp add: generateUniqueSlugTraced_def simp del: upt_rec_numeral)
  have "take m [1..<101] = [1..<Suc m]" using m by (simp add: take_upt del: upt_rec_numeral upt_Suc)
  with tr have tr': "snd (generateUniqueSlugTraced existsCallback draws baseSlug) =
               baseSlug # map (numbered baseSlug) [1..<Suc m]" by (simp only:)
  have 1: "\<exists>m\<le>100. snd (generateUniqueSlugTraced existsCallback draws baseSlug) =
       baseSlug # map (numbered baseSlug) [1..<Suc m]"
    using m tr' by blast
  have 2: "length (snd (generateUniqueSlugTraced existsCallback draws baseSlug)) \<le> 101"
    using m by (simp add: tr' del: upt_Suc)
  have 3: "generateUniqueSlugTraced existsCallback draws baseSlug =
        (baseSlug @ js ''-'' @ generateRandomString 8 draws,
         baseSlug # map (numbered baseSlug) [1..<101])"
    if "existsCallback baseSlug \<and> (\<forall>k. 1 \<le> k \<and> k \<le> 100 \<longrightarrow> existsCallback (numbered baseSlug k))"
  proof -
    have "uniqueLoop existsCallback draws baseSlug baseSlug 1 [] =
      (baseSlug @ js ''-'' @ generateRandomString 8 draws, [] @ baseSlug # map (numbered baseSlug) [1..<101])"
      using that by (intro uniqueLoop_all_taken) simp_all
    then show ?thesis by (simp add: generateUniqueSlugTraced_def del: upt_rec_numeral)
  qed
  have 4: "generateUniqueSlug existsCallback draws baseSlug
           \<notin> set (snd (generateUniqueSlugTraced existsCallback draws baseSlug))"
    if "existsCallback baseSlug \<and> (\<forall>k. 1 \<le> k \<and> k \<le> 100 \<longrightarrow> existsCallback (numbered baseSlug k))"
      and "validDraws 8 draws"
    using fallback_not_asked[OF that(2), of baseSlug] 3[OF that(1)]
    by (simp add: generateUniqueSlug_def del: upt_rec_numeral)
  from 1 2 3 4 show ?thesis by blast
qed

text \<open>
  Claim C10, witness: with a predicate that is always true the predicate is invoked 101
  times and the fallback \<open>x-abcdefgh\<close> is not among the candidates asked about.
\<close>

theorem generateUniqueSlug_bounded_witness:
  "generateUniqueSlugTraced (\<lambda>s. True) [0, 1, 2, 3, 4, 5, 6, 7] (js ''x'') =
     (js ''x-abcdefgh'', js ''x'' # map (numbered (js ''x'')) [1..<101]) \<and>
   length (snd (generateUniqueSlugTraced (\<lambda>s. True) [0, 1, 2, 3, 4, 5, 6, 7] (js ''x''))) = 101 \<and>
   js ''x-abcdefgh'' \<notin> set (snd (generateUniqueSlugTraced (\<lambda>s. True) [0, 1, 2, 3, 4, 5, 6, 7] (js ''x'')))"
proof -
  let ?d = "[0, 1, 2, 3, 4, 5, 6, 7] :: nat list"
  have v: "validDraws 8 ?d"
    by (simp add: validDraws_def)
  have e: "js ''x'' @ js ''-'' @ generateRandomString 8 ?d = js ''x-abcdefgh''"
    unfolding random8_example by (simp add: js_def)
  note th = generateUniqueSlug_bounded[of "\<lambda>s. True" ?d "js ''x''"]
  have t: "generateUniqueSlugTraced (\<lambda>s. True) ?d (js ''x'') =
        (js ''x'' @ js ''-'' @ generateRandomString 8 ?d,
         js ''x'' # map (numbered (js ''x'')) [1..<101])"
    using th by blast
  have n: "generateUniqueSlug (\<lambda>s. True) ?d (js ''x'')
           \<notin> set (snd (generateUniqueSlugTraced (\<lambda>s. True) ?d (js ''x'')))"
    using th v by blast
  have t': "generateUniqueSlugTraced (\<lambda>s. True) ?d (js ''x'') =
        (js ''x-abcdefgh'', js ''x'' # map (numbered (js ''x'')) [1..<101])"
    using t by (simp only: e)
  have g: "generateUniqueSlug (\<lambda>s. True) ?d (js ''x'') = js ''x-abcdefgh''"
    by (simp only: generateUniqueSlug_def t' fst_conv)
  have "length (js ''x'' # map (numbered (js ''x'')) [1..<101]) = 101"
    by (simp del: upt_rec_numeral)
  then have l: "length (snd (generateUniqueSlugTraced (\<lambda>s. True) ?d (js ''x''))) = 101"
    by (simp only: t' snd_conv)
  from n have "js ''x-abcdefgh'' \<notin> set (snd (generateUniqueSlugTraced (\<lambda>s. True) ?d (js ''x'')))"
    unfolding g .
  with t' l show ?thesis by blast
qed

section \<open>Escaping and unescaping\<close>

lemma unescape_escaped_unit: "unescapeHTML (htmlEscapes c @ rest) = c # unescapeHTML rest"
  by (simp add: htmlEscapes_def js_def)

lemma escapeHTML_example: "escapeHTML (js ''&amp;'') = js ''&amp;amp;''"
  by (simp add: escapeHTML_def htmlEscapes_def js_def)

text \<open>
  Claim C9. For every string, unescaping the escaped string gives the string back; this
  includes strings that already contain entities such as \<open>&amp;\<close>, whose ampersand is
  escaped once more and restored.
\<close>

theorem unescapeHTML_escapeHTML: "unescapeHTML (escapeHTML s) = s"
  by (induction s) (simp_all add: escapeHTML_def unescape_escaped_unit)

text \<open>Claim C9 at the string \<open>&amp;\<close>, which is escaped to \<open>&amp;amp;\<close>.\<close>

theorem unescapeHTML_escapeHTML_witness:
  "unescapeHTML (escapeHTML (js ''&amp;'')) = js ''&amp;''"
  by (rule unescapeHTML_escapeHTML)

section \<open>The retry loop of the language-model client\<close>

lemma makeRequest_stop:
  "\<not> (r < 3 \<and> transient (posts k)) \<Longrightarrow>
   makeRequest posts k r = \<lparr> outcome = interceptor (posts k), attempts = 1, sleeps = [] \<rparr>"
  by (subst makeRequest.simps, cases "posts k") (auto simp add: maxRetries_def)

lemma makeRequest_retry:
  "r < 3 \<Longrightarrow> transient (posts k) \<Longrightarrow>
   makeRequest posts k r =
     \<lparr> outcome = outcome (makeRequest posts (k + 1) (r + 1)),
       attempts = 1 + attempts (makeRequest posts (k + 1) (r + 1)),
       sleeps = 1000 * 2 ^ r # sleeps (makeRequest posts (k + 1) (r + 1)) \<rparr>"
  by (subst makeRequest.simps, cases "posts k")
     (auto simp add: maxRetries_def retryDelay_def Let_def)

lemma makeRequest_general:
  "r \<le> 3 \<Longrightarrow>
   1 \<le> attempts (makeRequest posts k r) \<and>
   attempts (makeRequest posts k r) \<le> 4 - r \<and>
   sleeps (makeRequest posts k r) =
     map (\<lambda>i. 1000 * 2 ^ i) [r..<r + (attempts (makeRequest posts k r) - 1)] \<and>
   (\<forall>i. i + 1 < attempts (makeRequest posts k r) \<longrightarrow> transient (posts (k + i))) \<and>
   outcome (makeRequest posts k r) = interceptor (posts (k + (attempts (makeRequest posts k r) - 1))) \<and>
   (attempts (makeRequest posts k r) < 4 - r \<longrightarrow>
      \<not> transient (posts (k + (attempts (makeRequest posts k r) - 1))))"
proof (induction "3 - r" arbitrary: r k)
  case 0
  then have "r = 3" by simp
  then show ?case by (simp add: makeRequest_stop)
next
  case (Suc d)
  then have r: "r < 3" by simp
  show ?case
  proof (cases "transient (posts k)")
    case False
    then show ?thesis using r by (simp add: makeRequest_stop)
  next
    case True
    define later where "later = makeRequest posts (k + 1) (r + 1)"
    have IH: "1 \<le> attempts later \<and> attempts later \<le> 4 - (r + 1) \<and>
       sleeps later = map (\<lambda>i. 1000 * 2 ^ i) [r + 1..<r + 1 + (attempts later - 1)] \<and>
       (\<forall>i. i + 1 < attempts later \<longrightarrow> transient (posts (k + 1 + i))) \<and>
       outcome later = interceptor (posts (k + 1 + (attempts later - 1))) \<and>
       (attempts later < 4 - (r + 1) \<longrightarrow> \<not> transient (posts (k + 1 + (attempts later - 1))))"
      unfolding later_def using Suc.hyps(2) r by (intro Suc.hyps(1)) simp_all
    have eq: "makeRequest posts k r =
       \<lparr> outcome = outcome later, attempts = 1 + attempts later,
         sleeps = 1000 * 2 ^ r # sleeps later \<rparr>"
      unfolding later_def using r True by (rule makeRequest_retry)
    have a1: "1 \<le> attempts (makeRequest posts k r)" by (simp add: eq)
    have "attempts later \<le> 4 - (r + 1)" using IH by blast
    then have a2: "attempts (makeRequest posts k r) \<le> 4 - r" using r by (simp add: eq)
    have a3: "sleeps (makeRequest posts k r) =
       map (\<lambda>i. 1000 * 2 ^ i) [r..<r + (attempts (makeRequest posts k r) - 1)]"
    proof -
      have n: "r + 1 + (attempts later - 1) = r + attempts later" using IH by simp
      have sl: "sleeps later = map (\<lambda>i. 1000 * 2 ^ i) [r + 1..<r + attempts later]"
        using IH unfolding n by blast
      have "r < r + attempts later" using IH by simp
      then have up: "[r..<r + attempts later] = r # [r + 1..<r + attempts later]"
        by (simp add: upt_conv_Cons del: upt_Suc)
      have "attempts (makeRequest posts k r) - 1 = attempts later" by (simp add: eq)
      then show ?thesis by (simp add: eq sl up del: upt_Suc)
    qed
    have a4: "\<forall>i. i + 1 < attempts (makeRequest posts k r) \<longrightarrow> transient (posts (k + i))"
    proof (intro allI impI)
      fix i assume i: "i + 1 < attempts (makeRequest posts k r)"
      show "transient (posts (k + i))"
      proof (cases i)
        case 0 then show ?thesis using True by simp
      next
        case (Suc j)
        then have "j + 1 < attempts later" using i by (simp add: eq)
        then have "transient (posts (k + 1 + j))" using IH by blast
        then show ?thesis using Suc by simp
      qed
    qed
    have "1 \<le> attempts later" using IH by blast
    then have idx: "k + (attempts (makeRequest posts k r) - 1) = k + 1 + (attempts later - 1)"
      by (simp add: eq)
    have "outcome later = interceptor (posts (k + 1 + (attempts later - 1)))"
      using IH by blast
    then have a5: "outcome (makeRequest posts k r) =
        interceptor (posts (k + (attempts (makeRequest posts k r) - 1)))"
      unfolding idx by (simp add: eq)
    have i6: "attempts later < 4 - (r + 1) \<longrightarrow>
        \<not> transient (posts (k + 1 + (attempts later - 1)))" using IH by blast
    have "attempts (makeRequest posts k r) < 4 - r \<Longrightarrow> attempts later < 4 - (r + 1)"
      using r by (simp add: eq)
    with i6 have a6: "attempts (makeRequest posts k r) < 4 - r \<longrightarrow>
        \<not> transient (posts (k + (attempts (makeRequest posts k r) - 1)))"
      unfolding idx by blast
    from a1 a2 a3 a4 a5 a6 show ?thesis by blast
  qed
qed

text \<open>
  Claim C3, as the code has it. \<open>makeRequest\<close> makes between one and four posts:
  \<open>maxRetries = 3\<close> bounds the retries, not the attempts. Every post but the last failed
  with status 429, 502, 503 or 504, the delays slept are 1000, 2000 and 4000 milliseconds
  in that order, and what is returned or thrown is the outcome of the last post. Fewer than
  four posts are made only when the last one succeeded or failed with anything else, which
  is then thrown at once.
\<close>

theorem makeRequest_retry_policy:
  "1 \<le> attempts (makeRequest posts k 0) \<and>
   attempts (makeRequest posts k 0) \<le> 4 \<and>
   sleeps (makeRequest posts k 0) =
     map (\<lambda>i. 1000 * 2 ^ i) [0..<attempts (makeRequest posts k 0) - 1] \<and>
   (\<forall>i. i + 1 < attempts (makeRequest posts k 0) \<longrightarrow> transient (posts (k + i))) \<and>
   outcome (makeRequest posts k 0) = interceptor (posts (k + (attempts (makeRequest posts k 0) - 1))) \<and>
   (attempts (makeRequest posts k 0) < 4 \<longrightarrow>
      \<not> transient (posts (k + (attempts (makeRequest posts k 0) - 1))))"
  using makeRequest_general[OF le0, of posts k] unfolding diff_zero add_0 .

lemma makeRequest_alwaysOut:
  "makeRequest alwaysOut 0 0 =
     \<lparr> outcome = Inl (GrokAPIError (js ''API request failed: 503 - Unknown error'') (Some 503)),
       attempts = 4, sleeps = [1000, 2000, 4000] \<rparr>"
  by (simp add: makeRequest.simps alwaysOut_def maxRetries_def retryDelay_def Let_def
        numberToString.simps js_def)

text \<open>
  Claim C3, witness: when the service answers 503 every time, four posts are made, the
  delays are 1000, 2000 and 4000, and the error of the fourth post is thrown.
\<close>

theorem makeRequest_retry_policy_witness:
  "attempts (makeRequest alwaysOut 0 0) = 4 \<and>
   sleeps (makeRequest alwaysOut 0 0) = [1000, 2000, 4000] \<and>
   outcome (makeRequest alwaysOut 0 0) =
     Inl (GrokAPIError (js ''API request failed: 503 - Unknown error'') (Some 503))"
proof -
  have t: "transient (alwaysOut i)" for i by (simp add: alwaysOut_def)
  note th = makeRequest_retry_policy[of alwaysOut 0]
  have "\<not> attempts (makeRequest alwaysOut 0 0) < 4" using th t by blast
  moreover have "attempts (makeRequest alwaysOut 0 0) \<le> 4" using th by blast
  ultimately have a: "attempts (makeRequest alwaysOut 0 0) = 4" by simp
  have s: "sleeps (makeRequest alwaysOut 0 0) = map (\<lambda>i. 1000 * 2 ^ i) [0..<4 - 1]"
    using th a by simp
  have o: "outcome (makeRequest alwaysOut 0 0) = interceptor (alwaysOut (0 + (4 - 1)))"
    using th a by simp
  have "map (\<lambda>i. 1000 * 2 ^ i) [0..<4 - 1] = [1000, 2000, 4000::nat]"
    by (simp add: upt_rec)
  moreover have "interceptor (alwaysOut (0 + (4 - 1))) =
      Inl (GrokAPIError (js ''API request failed: 503 - Unknown error'') (Some 503))"
    by (simp add: alwaysOut_def numberToString.simps js_def)
  ultimately show ?thesis using a s o by simp
qed

text \<open>
  Claim C3, counterexample to the claim as stated: after three consecutive 503 responses a
  fourth post is made, and its successful response is returned.
\<close>

theorem makeRequest_fourth_attempt_counterexample:
  "threeOutages 0 = Status 503 None \<and> threeOutages 1 = Status 503 None \<and>
   threeOutages 2 = Status 503 None \<and>
   makeRequest threeOutages 0 0 = \<lparr> outcome = Inr (), attempts = 4, sleeps = [1000, 2000, 4000] \<rparr>"
  by (simp add: makeRequest.simps threeOutages_def maxRetries_def retryDelay_def Let_def)

section \<open>The content analyzer\<close>









section \<open>Creating a post\<close>

lemma blank_orNull: "blank (orNull v) = blank v"
  by (simp add: blank_def orNull_def split: option.splits)

lemma orNull_not_blank: "\<not> blank v \<Longrightarrow> orNull v = v"
  by (auto simp add: blank_def orNull_def split: option.splits)

lemma validate_empty:
  "validate p = [] \<longleftrightarrow>
     \<not> blank (slug p) \<and> \<not> blank (title p) \<and> \<not> blank (description p) \<and>
     \<not> blank (html_content p) \<and> \<not> blank (discord_user_id p) \<and>
     \<not> blank (discord_username p) \<and>
     (case slug p of None \<Rightarrow> True | Some s \<Rightarrow> s = [] \<or> isPlainSlug s)"
  by (auto simp add: validate_def split: option.splits)

lemma newPost_fields:
  "slug (newPost data) = orNull (slug data)" "title (newPost data) = orNull (title data)"
  "description (newPost data) = orNull (description data)"
  "html_content (newPost data) = orNull (html_content data)"
  "discord_user_id (newPost data) = orNull (discord_user_id data)"
  "discord_username (newPost data) = orNull (discord_username data)"
  by (simp_all add: newPost_def)

lemma validate_newPost: "validate (newPost data) = [] \<longleftrightarrow> acceptable data"
proof (cases "blank (slug data)")
  case True
  then show ?thesis by (simp add: validate_empty newPost_fields blank_orNull acceptable_def)
next
  case False
  then obtain s where s: "slug data = Some s" "s \<noteq> []"
    by (auto simp add: blank_def split: option.splits)
  then have "orNull (slug data) = Some s" by (simp add: orNull_def)
  then show ?thesis
    using s by (simp add: validate_empty newPost_fields blank_orNull acceptable_def)
qed

lemma newPost_acceptable:
  "acceptable data \<Longrightarrow>
   newPost data = data \<lparr> postId := (case postId data of None \<Rightarrow> None | Some i \<Rightarrow> if i = 0 then None else Some i),
                          created_at := orNull (created_at data),
                          updated_at := orNull (updated_at data) \<rparr>"
  by (simp add: newPost_def acceptable_def orNull_not_blank)

lemma create_invalid:
  "\<not> acceptable data \<Longrightarrow>
   create r stamp db data =
     (Inl (Error (js ''Validation failed: '' @ joinWith (js '', '') (validate (newPost data)))), db)"
  by (simp add: create_def Let_def validate_newPost)

lemma create_duplicate:
  assumes "acceptable data" and "\<exists>row\<in>set (rows db). slug row = slug data"
  shows "create r stamp db data = (Inl (slugExistsError (slug data)), db)"
proof -
  have s: "slug (newPost data) = slug data"
    using assms(1) by (simp add: newPost_def acceptable_def orNull_not_blank)
  from assms(2) obtain e where "find (\<lambda>row. slug row = slug data) (rows db) = Some e"
    by (cases "find (\<lambda>row. slug row = slug data) (rows db)") (auto simp add: find_None_iff)
  then show ?thesis
    using assms(1) by (simp add: create_def Let_def validate_newPost s)
qed

lemma find_in_appended:
  "find P (xs @ ys) = (case find P xs of None \<Rightarrow> find P ys | Some x \<Rightarrow> Some x)"
  by (induction xs) simp_all

lemma find_fresh_id:
  assumes "wellFormed db" and "postId row = Some (sequence db + 1)"
  shows "find (\<lambda>r. postId r = Some (sequence db + 1)) (rows db @ [row]) = Some row"
proof -
  have "\<forall>r\<in>set (rows db). postId r \<noteq> Some (sequence db + 1)"
    using assms(1) by (auto simp add: wellFormed_def list_all_iff split: option.splits)
  then have "find (\<lambda>r. postId r = Some (sequence db + 1)) (rows db) = None"
    by (simp add: find_None_iff)
  then show ?thesis using assms(2) by (simp add: find_in_appended)
qed

lemma create_inserts:
  assumes "acceptable data" and "\<forall>row\<in>set (rows db). slug row \<noteq> slug data"
    and "wellFormed db" and "stamp \<noteq> []"
  shows "create True stamp db data =
           (Inr (newPost data \<lparr> postId := Some (sequence db + 1), created_at := Some stamp,
                                 updated_at := Some stamp \<rparr>),
            \<lparr> rows = rows db @ [newPost data \<lparr> postId := Some (sequence db + 1),
                                   created_at := Some stamp, updated_at := Some stamp \<rparr>],
              sequence = sequence db + 1 \<rparr>)"
proof -
  let ?row = "newPost data \<lparr> postId := Some (sequence db + 1), created_at := Some stamp,
                               updated_at := Some stamp \<rparr>"
  have s: "slug (newPost data) = slug data"
    using assms(1) by (simp add: newPost_def acceptable_def orNull_not_blank)
  have none: "find (\<lambda>row. slug row = slug data) (rows db) = None"
    using assms(2) by (simp add: find_None_iff)
  have f: "find (\<lambda>r. postId r = Some (sequence db + 1)) (rows db @ [?row]) = Some ?row"
    using assms(3) by (rule find_fresh_id) simp
  have idem: "newPost ?row = ?row"
    using assms(1,4) by (simp add: newPost_def acceptable_def orNull_not_blank) (simp add: orNull_def)
  show ?thesis
    using assms(1) none f idem by (simp add: create_def Let_def validate_newPost s)
qed

text \<open>
  When the result of \<open>run\<close> carries no \<open>lastID\<close>, as with the sqlite3 package, \<open>create\<close>
  throws a \<open>TypeError\<close> after the row has been inserted, for every acceptable post with a
  fresh slug.
\<close>

lemma create_without_lastID:
  assumes "acceptable data" and "\<forall>row\<in>set (rows db). slug row \<noteq> slug data"
  shows "create False stamp db data =
           (Inl (TypeError (js ''Cannot read properties of undefined (reading '' @ [39] @
                   js ''lastID'' @ [39] @ js '')'')),
            \<lparr> rows = rows db @ [newPost data \<lparr> postId := Some (sequence db + 1),
                                   created_at := Some stamp, updated_at := Some stamp \<rparr>],
              sequence = sequence db + 1 \<rparr>)"
proof -
  have s: "slug (newPost data) = slug data"
    using assms(1) by (simp add: newPost_def acceptable_def orNull_not_blank)
  have none: "find (\<lambda>row. slug row = slug data) (rows db) = None"
    using assms(2) by (simp add: find_None_iff)
  show ?thesis
    using assms(1) none by (simp add: create_def Let_def validate_newPost s)
qed

lemma create_stores:
  assumes "acceptable data" and "\<forall>row\<in>set (rows db). slug row \<noteq> slug data"
  shows "snd (create reported stamp db data) =
           \<lparr> rows = rows db @ [newPost data \<lparr> postId := Some (sequence db + 1),
                                   created_at := Some stamp, updated_at := Some stamp \<rparr>],
             sequence = sequence db + 1 \<rparr>"
proof -
  have s: "slug (newPost data) = slug data"
    using assms(1) by (simp add: newPost_def acceptable_def orNull_not_blank)
  have none: "find (\<lambda>row. slug row = slug data) (rows db) = None"
    using assms(2) by (simp add: find_None_iff)
  show ?thesis
    using assms(1) none
    by (simp add: create_def Let_def validate_newPost s split: option.splits)
qed

text \<open>
  Claim C6, as the code has it. \<open>create\<close> accepts the data when the six required fields
  are non-blank and the slug matches \<open>^[a-z0-9-]+$\<close>, the pattern of the model itself and
  not \<open>validateSlug\<close>. Otherwise it throws \<open>Error('Validation failed: ...')\<close>. When a row
  with the same slug exists it throws a plain \<open>Error\<close> whose message names the slug; there
  is no \<open>DuplicateSlugError\<close> class. In both cases the table is unchanged. Otherwise the row
  is inserted with the next id and both time stamps. All of this holds whatever the
  promisified \<open>run\<close> resolves to; what \<open>create\<close> returns after the insert is not part of
  the statement.
\<close>

theorem create_outcomes:
  "(\<not> acceptable data \<longrightarrow>
      create reported stamp db data =
        (Inl (Error (js ''Validation failed: '' @ joinWith (js '', '') (validate (newPost data)))), db)) \<and>
   (acceptable data \<and> (\<exists>row\<in>set (rows db). slug row = slug data) \<longrightarrow>
      create reported stamp db data = (Inl (slugExistsError (slug data)), db) \<and>
      errorName (slugExistsError (slug data)) = js ''Error'') \<and>
   (acceptable data \<and> (\<forall>row\<in>set (rows db). slug row \<noteq> slug data) \<longrightarrow>
      (\<exists>inserted. snd (create reported stamp db data) =
                    \<lparr> rows = rows db @ [inserted], sequence = sequence db + 1 \<rparr> \<and>
                  postId inserted = Some (sequence db + 1) \<and>
                  created_at inserted = Some stamp \<and> updated_at inserted = Some stamp \<and>
                  slug inserted = slug data \<and> title inserted = title data \<and>
                  description inserted = description data \<and>
                  html_content inserted = html_content data \<and>
                  discord_user_id inserted = discord_user_id data \<and>
                  discord_username inserted = discord_username data))"
proof (intro conjI impI)
  assume "\<not> acceptable data"
  then show "create reported stamp db data =
        (Inl (Error (js ''Validation failed: '' @ joinWith (js '', '') (validate (newPost data)))), db)"
    by (rule create_invalid)
next
  assume "acceptable data \<and> (\<exists>row\<in>set (rows db). slug row = slug data)"
  then show "create reported stamp db data = (Inl (slugExistsError (slug data)), db)"
    by (simp add: create_duplicate)
next
  show "errorName (slugExistsError (slug data)) = js ''Error''"
    by (simp add: slugExistsError_def)
next
  assume a: "acceptable data \<and> (\<forall>row\<in>set (rows db). slug row \<noteq> slug data)"
  let ?row = "newPost data \<lparr> postId := Some (sequence db + 1), created_at := Some stamp,
                               updated_at := Some stamp \<rparr>"
  have "snd (create reported stamp db data) =
      \<lparr> rows = rows db @ [?row], sequence = sequence db + 1 \<rparr>"
    using a by (intro create_stores) simp_all
  moreover have "slug ?row = slug data \<and> title ?row = title data \<and>
      description ?row = description data \<and> html_content ?row = html_content data \<and>
      discord_user_id ?row = discord_user_id data \<and> discord_username ?row = discord_username data"
    using a by (simp add: newPost_def acceptable_def orNull_not_blank)
  ultimately show "\<exists>inserted. snd (create reported stamp db data) =
                    \<lparr> rows = rows db @ [inserted], sequence = sequence db + 1 \<rparr> \<and>
                  postId inserted = Some (sequence db + 1) \<and>
                  created_at inserted = Some stamp \<and> updated_at inserted = Some stamp \<and>
                  slug inserted = slug data \<and> title inserted = title data \<and>
                  description inserted = description data \<and>
                  html_content inserted = html_content data \<and>
                  discord_user_id inserted = discord_user_id data \<and>
                  discord_username inserted = discord_username data"
    by (intro exI[of _ ?row]) simp
qed

lemma trims:
  "trim [104, 101, 108, 108, 111] \<noteq> []" "trim [72, 101, 108, 108, 111] \<noteq> []"
  "trim [65, 32, 103, 114, 101, 101, 116, 105, 110, 103] \<noteq> []"
  "trim [60, 104, 49, 62, 72, 101, 108, 108, 111, 60, 47, 104, 49, 62] \<noteq> []"
  "trim [117, 49] \<noteq> []" "trim [117, 115, 101, 114] \<noteq> []"
  by (simp_all add: trim_def trimStart_def trimEnd_def isSpace_def)

lemma helloPost_acceptable: "acceptable helloPost"
  using trims
  by (simp add: acceptable_def helloPost_def blank_def isPlainSlug_def isPlainSlugChar_def
        isDigit_def js_def)

text \<open>
  Claim C6, witness, with a \<open>run\<close> that resolves without \<open>lastID\<close>: a duplicate of
  \<open>hello\<close> is refused and the table is unchanged, the same post is inserted into an empty
  table with id 1, and a post without a title fails validation.
\<close>

theorem create_outcomes_witness:
  "create False (js ''2024-01-02 00:00:00'') helloStore helloPost =
     (Inl (Error (js ''Post with slug '' @ [39] @ js ''hello'' @ [39] @ js '' already exists'')),
      helloStore) \<and>
   (\<exists>inserted. snd (create False (js ''2024-01-02 00:00:00'') emptyStore helloPost) =
      \<lparr> rows = [inserted], sequence = 1 \<rparr> \<and>
      postId inserted = Some 1 \<and> created_at inserted = Some (js ''2024-01-02 00:00:00'') \<and>
      html_content inserted = Some (js ''<h1>Hello</h1>'')) \<and>
   create False (js ''2024-01-02 00:00:00'') emptyStore (helloPost \<lparr> title := None \<rparr>) =
     (Inl (Error (js ''Validation failed: Title is required'')), emptyStore)"
proof -
  let ?stamp = "js ''2024-01-02 00:00:00''"
  have dup: "\<exists>row\<in>set (rows helloStore). slug row = slug helloPost"
    by (simp add: helloStore_def helloPost_def)
  have a: "create False ?stamp helloStore helloPost =
      (Inl (Error (js ''Post with slug '' @ [39] @ js ''hello'' @ [39] @ js '' already exists'')),
       helloStore)"
    using create_outcomes[of helloPost False ?stamp helloStore] helloPost_acceptable dup
    by (simp add: slugExistsError_def helloPost_def)
  have fresh: "\<forall>row\<in>set (rows emptyStore). slug row \<noteq> slug helloPost"
    by (simp add: emptyStore_def)
  have b: "\<exists>inserted. snd (create False ?stamp emptyStore helloPost) =
      \<lparr> rows = [inserted], sequence = 1 \<rparr> \<and>
      postId inserted = Some 1 \<and> created_at inserted = Some ?stamp \<and>
      html_content inserted = Some (js ''<h1>Hello</h1>'')"
    using create_outcomes[of helloPost False ?stamp emptyStore] helloPost_acceptable fresh
    by (auto simp add: emptyStore_def helloPost_def)
  have bad: "\<not> acceptable (helloPost \<lparr> title := None \<rparr>)"
    by (simp add: acceptable_def blank_def)
  have v: "validate (newPost (helloPost \<lparr> title := None \<rparr>)) = [js ''Title is required'']"
    using trims
    by (simp add: validate_def newPost_def helloPost_def orNull_def blank_def isPlainSlug_def
          isPlainSlugChar_def isDigit_def js_def)
  have c: "create False ?stamp emptyStore (helloPost \<lparr> title := None \<rparr>) =
     (Inl (Error (js ''Validation failed: Title is required'')), emptyStore)"
    using create_outcomes[of "helloPost \<lparr> title := None \<rparr>" False ?stamp emptyStore] bad
    by (simp add: v) (simp add: js_def)
  from a b c show ?thesis by blast
qed

text \<open>
  Claim C6, counterexample to the claim as stated: the error thrown for a duplicate slug is
  a plain \<open>Error\<close>, not a \<open>DuplicateSlugError\<close>.
\<close>

theorem create_untyped_error_counterexample:
  "fst (create True (js ''2024-01-02 00:00:00'') helloStore helloPost) =
     Inl (Error (js ''Post with slug '' @ [39] @ js ''hello'' @ [39] @ js '' already exists'')) \<and>
   errorName (Error (js ''Post with slug '' @ [39] @ js ''hello'' @ [39] @ js '' already exists''))
     \<noteq> js ''DuplicateSlugError''"
proof -
  have dup: "\<exists>row\<in>set (rows helloStore). slug row = slug helloPost"
    by (simp add: helloStore_def helloPost_def)
  have "create True (js ''2024-01-02 00:00:00'') helloStore helloPost =
      (Inl (slugExistsError (slug helloPost)), helloStore)"
    using helloPost_acceptable dup by (rule create_duplicate)
  then show ?thesis by (simp add: slugExistsError_def helloPost_def) (simp add: js_def)
qed

section \<open>The command handler\<close>

lemmas string_eval = trim_def trimStart_def trimEnd_def isSpace_def js_def

lemma extract_hello:
  "extractContent helloMessage =
     Inr \<lparr> dataContent = js ''<h1>Hello</h1>'', dataType = js ''codeblock'', filename = None \<rparr>"
  by (simp add: extractContent_def helloMessage_def extractFromCodeBlock_def fencedBlock_def
        fence_def startsWithCI_def asciiLower_def afterOptionalNewline_def isValidHtml_def
        isAlpha_def Let_def string_eval)

lemma extract_script:
  "extractContent scriptMessage =
     Inr \<lparr> dataContent = js ''<h1>Hello</h1><script>alert(1)</script>'',
           dataType = js ''codeblock'', filename = None \<rparr>"
  by (simp add: extractContent_def scriptMessage_def extractFromCodeBlock_def fencedBlock_def
        fence_def startsWithCI_def asciiLower_def afterOptionalNewline_def isValidHtml_def
        isAlpha_def Let_def string_eval)

lemma request_hello:
  "makeRequest helloResponses k 0 =
     \<lparr> outcome = Inr (Parsed (Text (js ''hello'')) (Text (js ''Hello'')) (Text (js ''A greeting''))),
       attempts = 1, sleeps = [] \<rparr>"
  by (subst makeRequest.simps) (simp add: helloResponses_def)

lemma read_hello:
  "readResponse (Parsed (Text (js ''hello'')) (Text (js ''Hello'')) (Text (js ''A greeting''))) =
     Inr \<lparr> metaSlug = js ''hello'', metaTitle = js ''Hello'', metaDescription = js ''A greeting'' \<rparr>"
  by (simp add: readResponse_def Let_def isPlainSlug_def isPlainSlugChar_def isDigit_def js_def)

lemma client_hello:
  "html \<noteq> [] \<Longrightarrow> trim html \<noteq> [] \<Longrightarrow>
   clientAnalyzeContent helloResponses k html =
     (Inr \<lparr> metaSlug = js ''hello'', metaTitle = js ''Hello'', metaDescription = js ''A greeting'' \<rparr>, 1)"
  by (simp add: clientAnalyzeContent_def request_hello read_hello)

lemma trim_hello: "trim (js ''<h1>Hello</h1>'') = js ''<h1>Hello</h1>''"
  by (simp add: string_eval)

lemma loop_hello:
  "html \<noteq> [] \<Longrightarrow> trim html \<noteq> [] \<Longrightarrow>
   analysisLoop helloResponses 0 html 2 0 =
     (Inr \<lparr> metaSlug = js ''hello'', metaTitle = js ''Hello'', metaDescription = js ''A greeting'' \<rparr>, 1)"
  by (subst analysisLoop.simps) (simp add: client_hello)

lemma postProcess_hello:
  "postProcessAnalysis
     \<lparr> metaSlug = js ''hello'', metaTitle = js ''Hello'', metaDescription = js ''A greeting'' \<rparr>
     extracted (js ''Discord Post'') =
   \<lparr> analysisSlug = js ''hello'', analysisTitle = js ''Hello'',
     analysisDescription = js ''A greeting'', analyzer = js ''grok-content-analyzer'' \<rparr>"
  by (simp add: postProcessAnalysis_def Let_def isPlainSlug_def isPlainSlugChar_def isDigit_def js_def)

lemma analyze_hello:
  "fst (analyzeContent cleanLibraries helloResponses (js ''<h1>Hello</h1>'')
          \<lparr> skipSanitization = False, fallbackTitle = js ''Discord Post'', analysisRetries = 2 \<rparr>) =
   Inr \<lparr> analysisSlug = js ''hello'', analysisTitle = js ''Hello'',
         analysisDescription = js ''A greeting'', analyzer = js ''grok-content-analyzer'' \<rparr>"
proof -
  have ne: "js ''<h1>Hello</h1>'' \<noteq> []" "trim (js ''<h1>Hello</h1>'') \<noteq> []"
    unfolding trim_hello by (simp_all add: js_def)
  have s: "analyzerSanitizeHTML cleanLibraries (js ''<h1>Hello</h1>'') = js ''<h1>Hello</h1>''"
    by (simp add: analyzerSanitizeHTML_def cleanLibraries_def)
  show ?thesis
    using ne by (simp add: analyzeContent_def Let_def s loop_hello postProcess_hello)
qed

lemma analyze_script:
  "fst (analyzeContent scriptLibraries helloResponses (js ''<h1>Hello</h1><script>alert(1)</script>'')
          \<lparr> skipSanitization = False, fallbackTitle = js ''Discord Post'', analysisRetries = 2 \<rparr>) =
   Inr \<lparr> analysisSlug = js ''hello'', analysisTitle = js ''Hello'',
         analysisDescription = js ''A greeting'', analyzer = js ''grok-content-analyzer'' \<rparr>"
proof -
  have ne: "js ''<h1>Hello</h1><script>alert(1)</script>'' \<noteq> []"
    "trim (js ''<h1>Hello</h1><script>alert(1)</script>'') \<noteq> []"
    by (simp_all add: string_eval)
  have ne': "js ''<h1>Hello</h1>'' \<noteq> []" "trim (js ''<h1>Hello</h1>'') \<noteq> []"
    unfolding trim_hello by (simp_all add: js_def)
  have s: "analyzerSanitizeHTML scriptLibraries (js ''<h1>Hello</h1><script>alert(1)</script>'') =
      js ''<h1>Hello</h1>''"
    by (simp add: analyzerSanitizeHTML_def scriptLibraries_def)
  show ?thesis
    using ne by (simp add: analyzeContent_def Let_def s loop_hello[OF ne'] postProcess_hello)
qed

lemma cleanUserSlug_hello: "cleanUserSlug d (js ''hello'') = Inr (js ''hello'')"
  by (simp add: cleanUserSlug_def generateSlug_def normalizeSlug_def truncateSlug_def
        defaultOptions_def applyCustomReplacements_def stripDiacritics_def toLowerCase_def
        lowerUnit_def replaceRuns_def replaceEach_def isKept_def isWordChar_def isAlnum_def
        isAlpha_def isDigit_def Let_def string_eval)

lemma includesStr_empty: "includesStr s []"
  by (cases s) simp_all

lemma includesStr_append_left: "includesStr a n \<Longrightarrow> includesStr (a @ b) n"
proof (induction a)
  case Nil
  then show ?case by (simp add: includesStr_empty)
next
  case (Cons c a)
  from Cons.prems have "prefix n (c # a) \<or> includesStr a n" by simp
  then show ?case
  proof
    assume "prefix n (c # a)"
    then have "prefix n ((c # a) @ b)" by (rule prefix_prefix)
    then show ?thesis by simp
  next
    assume "includesStr a n"
    then show ?thesis using Cons.IH by simp
  qed
qed

lemma includesStr_append_right: "includesStr b n \<Longrightarrow> includesStr (a @ b) n"
  by (induction a) simp_all

lemma includesStr_set: "includesStr s n \<Longrightarrow> set n \<subseteq> set s"
proof (induction s)
  case Nil
  then show ?case by simp
next
  case (Cons c s)
  from Cons.prems have "prefix n (c # s) \<or> includesStr s n" by simp
  then show ?case
  proof
    assume "prefix n (c # s)"
    then show ?thesis by (rule set_mono_prefix)
  next
    assume "includesStr s n"
    then have "set n \<subseteq> set s" by (rule Cons.IH)
    then show ?thesis by auto
  qed
qed

lemma plain_slug_no_capital: "isPlainSlug s \<Longrightarrow> 86 \<notin> set s"
  by (auto simp add: isPlainSlug_def isPlainSlugChar_def isDigit_def list_all_iff)

lemma errorReply_duplicate:
  assumes "isPlainSlug s"
  shows "errorReply (slugExistsError (Some s)) = duplicateReply"
proof -
  let ?m = "js ''Post with slug '' @ [39] @ s @ [39] @ js '' already exists''"
  have "86 \<notin> set ?m" using plain_slug_no_capital[OF assms] by (simp add: js_def)
  moreover have "86 \<in> set (js ''Validation failed'')" by (simp add: js_def)
  ultimately have 1: "\<not> includesStr ?m (js ''Validation failed'')"
    using includesStr_set by blast
  have "includesStr (js ''Post with slug '') (js ''slug'')" by (simp add: js_def)
  then have 2: "includesStr ?m (js ''slug'')" by (rule includesStr_append_left)
  have "includesStr (js '' already exists'') (js ''exists'')" by (simp add: js_def)
  then have "includesStr (([39] @ s @ [39]) @ js '' already exists'') (js ''exists'')"
    by (rule includesStr_append_right)
  then have "includesStr (js ''Post with slug '' @ ([39] @ s @ [39]) @ js '' already exists'') (js ''exists'')"
    by (rule includesStr_append_right)
  then have 3: "includesStr ?m (js ''exists'')" by simp
  show ?thesis using 1 2 3 by (simp add: errorReply_def slugExistsError_def Let_def)
qed

lemma create_duplicate_cases:
  assumes "fst (create r stamp db data) = Inl (slugExistsError (slug data))"
  shows "acceptable data \<and> snd (create r stamp db data) = db"
proof (cases "acceptable data")
  case False
  then have "fst (create r stamp db data) =
      Inl (Error (js ''Validation failed: '' @ joinWith (js '', '') (validate (newPost data))))"
    by (simp add: create_invalid)
  with assms show ?thesis by (simp add: slugExistsError_def js_def)
next
  case True
  show ?thesis
  proof (cases "\<exists>row\<in>set (rows db). slug row = slug data")
    case True
    with \<open>acceptable data\<close> show ?thesis by (simp add: create_duplicate)
  next
    case False
    then have fresh: "\<forall>row\<in>set (rows db). slug row \<noteq> slug data" by blast
    have s: "slug (newPost data) = slug data"
      using True by (simp add: newPost_def acceptable_def orNull_not_blank)
    have none: "find (\<lambda>row. slug row = slug data) (rows db) = None"
      using fresh by (simp add: find_None_iff)
    have "\<exists>e. fst (create r stamp db data) = Inr e \<or> (\<exists>m. fst (create r stamp db data) = Inl (TypeError m))"
      using True none
      by (auto simp add: create_def Let_def validate_newPost s split: option.splits)
    with assms show ?thesis by (auto simp add: slugExistsError_def)
  qed
qed

lemma handlePoopCommand_shape:
  "(filter isPostCreate (fst (handlePoopCommand w db msg)) = []) \<or>
   (\<exists>before data found. filter isPostCreate before = [] \<and>
      extractContent msg = Inr found \<and> html_content data = Some (dataContent found) \<and>
      handlePoopCommand w db msg =
        (before @ PostCreate data #
           afterCreate (fst (create (lastIDReported w) (currentTimestamp w) db data)),
         snd (create (lastIDReported w) (currentTimestamp w) db data)))"
proof (cases "startsWith (content msg) (js ''!poop'')")
  case False
  then show ?thesis by (simp add: handlePoopCommand_def)
next
  case True
  note starts = this
  show ?thesis
  proof (cases "extractContent msg")
    case (Inl error)
    then show ?thesis using starts by (simp add: handlePoopCommand_def)
  next
    case (Inr found)
    note found = this
    show ?thesis
    proof (cases "dataContent found = [] \<or> trim (dataContent found) = []")
      case True
      then show ?thesis using starts found by (auto simp add: handlePoopCommand_def Let_def)
    next
      case False
      note nonblank = this
      define options where "options = \<lparr> skipSanitization = False,
                                 fallbackTitle =
                                   (case filename found of
                                      None \<Rightarrow> js ''Discord Post''
                                    | Some f \<Rightarrow> if f = [] then js ''Discord Post''
                                                else stripHtmlSuffix f),
                                 analysisRetries = 2 \<rparr>"
      show ?thesis
      proof (cases "fst (analyzeContent (installed w) (responses w) (dataContent found) options)")
        case (Inl error)
        then show ?thesis using starts found nonblank
          by (simp add: handlePoopCommand_def Let_def options_def)
      next
        case (Inr analysis)
        note analysis = this
        show ?thesis
        proof (cases "cleanUserSlug (randomDraws w) (analysisSlug analysis)")
          case (Inl error)
          then show ?thesis using starts found nonblank analysis
            by (simp add: handlePoopCommand_def Let_def options_def)
        next
          case (Inr sanitizedSlug)
          define data where "data = \<lparr> postId = None,
                                              slug = Some sanitizedSlug,
                                              title = Some (analysisTitle analysis),
                                              description = Some (analysisDescription analysis),
                                              html_content = Some (dataContent found),
                                              discord_user_id = Some (authorId msg),
                                              discord_username = Some (authorUsername msg),
                                              created_at = None, updated_at = None \<rparr>"
          define before where "before = [SendTyping,
                                Reply ([55357, 56580] @ js '' Processing your HTML content...''),
                                AnalyzeContent (dataContent found) options,
                                Edit ([55358, 56800] @ js '' AI analysis complete, sanitizing slug...''),
                                Edit ([55357, 56510] @ js '' Saving to database...'')]"
          have b: "filter isPostCreate before = []" by (simp add: before_def)
          have h: "html_content data = Some (dataContent found)" by (simp add: data_def)
          have c: "handlePoopCommand w db msg =
              (before @ PostCreate data #
                 afterCreate (fst (create (lastIDReported w) (currentTimestamp w) db data)),
               snd (create (lastIDReported w) (currentTimestamp w) db data))"
            using starts found nonblank analysis Inr
            by (simp add: handlePoopCommand_def Let_def options_def[symmetric] data_def[symmetric]
                  before_def split: prod.splits sum.splits)
          show ?thesis
          proof (rule disjI2, intro exI conjI)
            show "filter isPostCreate before = []" by (rule b)
            show "extractContent msg = Inr found" by (rule found)
            show "html_content data = Some (dataContent found)" by (rule h)
            show "handlePoopCommand w db msg =
              (before @ PostCreate data #
                 afterCreate (fst (create (lastIDReported w) (currentTimestamp w) db data)),
               snd (create (lastIDReported w) (currentTimestamp w) db data))"
              by (rule c)
          qed
        qed
      qed
    qed
  qed
qed

lemma afterCreate_no_create: "filter isPostCreate (afterCreate r) = []"
  by (cases r) simp_all

text \<open>
  Whatever the message and the libraries, the \<open>html_content\<close> given to \<open>Post.create\<close> is
  the content that \<open>extractContent\<close> returned.
\<close>

lemma handlePoopCommand_stores_extracted:
  assumes "PostCreate data \<in> set (fst (handlePoopCommand w db msg))"
  shows "\<exists>found. extractContent msg = Inr found \<and> html_content data = Some (dataContent found)"
proof -
  from assms have "filter isPostCreate (fst (handlePoopCommand w db msg)) \<noteq> []"
    by (auto simp add: filter_empty_conv intro!: bexI[of _ "PostCreate data"])
  with handlePoopCommand_shape[of w db msg]
  obtain before data' found where b: "filter isPostCreate before = []"
    and f: "extractContent msg = Inr found" "html_content data' = Some (dataContent found)"
    and c: "handlePoopCommand w db msg =
        (before @ PostCreate data' #
           afterCreate (fst (create (lastIDReported w) (currentTimestamp w) db data')),
         snd (create (lastIDReported w) (currentTimestamp w) db data'))"
    by blast
  from b have nb: "PostCreate data \<notin> set before"
    by (auto simp add: filter_empty_conv)
  have na: "PostCreate data \<notin> set (afterCreate r)" for r
    using afterCreate_no_create[of r] by (auto simp add: filter_empty_conv)
  from c assms nb na have "data = data'" by auto
  with f show ?thesis by blast
qed

text \<open>
  Claim C7, as the code has it. The handler calls \<open>Post.create\<close> at most once per command
  and never calls the unique-slug resolver. When that one call fails because the slug
  exists, the handler replies that a post with this title already exists, right after the
  call, and the table is unchanged: there is no re-resolution and no second attempt.
\<close>

theorem handlePoopCommand_no_retry:
  "length (filter isPostCreate (fst (handlePoopCommand w db msg))) \<le> 1 \<and>
   (\<forall>data. PostCreate data \<in> set (fst (handlePoopCommand w db msg)) \<and>
           fst (create (lastIDReported w) (currentTimestamp w) db data) =
             Inl (slugExistsError (slug data)) \<longrightarrow>
      snd (handlePoopCommand w db msg) = db \<and>
      (\<exists>before. fst (handlePoopCommand w db msg) = before @ [PostCreate data, Reply duplicateReply] \<and>
                filter isPostCreate before = []))"
proof (cases "filter isPostCreate (fst (handlePoopCommand w db msg)) = []")
  case True
  then have "\<And>data. PostCreate data \<notin> set (fst (handlePoopCommand w db msg))"
    by (auto simp add: filter_empty_conv)
  with True show ?thesis by simp
next
  case False
  with handlePoopCommand_shape[of w db msg]
  obtain before data' where b: "filter isPostCreate before = []"
    and c: "handlePoopCommand w db msg =
        (before @ PostCreate data' #
           afterCreate (fst (create (lastIDReported w) (currentTimestamp w) db data')),
         snd (create (lastIDReported w) (currentTimestamp w) db data'))"
    by blast
  from b have nb: "\<And>data. PostCreate data \<notin> set before"
    by (auto simp add: filter_empty_conv)
  have na: "PostCreate data \<notin> set (afterCreate r)" for r data
    using afterCreate_no_create[of r] by (auto simp add: filter_empty_conv)
  have one: "length (filter isPostCreate (fst (handlePoopCommand w db msg))) \<le> 1"
    using b by (simp add: c afterCreate_no_create)
  have dup: "snd (handlePoopCommand w db msg) = db \<and>
      (\<exists>before. fst (handlePoopCommand w db msg) = before @ [PostCreate data, Reply duplicateReply] \<and>
                filter isPostCreate before = [])"
    if mem: "PostCreate data \<in> set (fst (handlePoopCommand w db msg))"
      and fail: "fst (create (lastIDReported w) (currentTimestamp w) db data) =
             Inl (slugExistsError (slug data))" for data
  proof -
    from c mem nb na have eq: "data' = data" by auto
    from create_duplicate_cases[OF fail] have acc: "acceptable data"
      and same: "snd (create (lastIDReported w) (currentTimestamp w) db data) = db" by simp_all
    from acc obtain s where s: "slug data = Some s" "isPlainSlug s"
      by (auto simp add: acceptable_def split: option.splits)
    have reply: "errorReply (slugExistsError (slug data)) = duplicateReply"
      using s by (simp add: errorReply_duplicate)
    have "handlePoopCommand w db msg = (before @ [PostCreate data, Reply duplicateReply], db)"
      using c unfolding eq by (simp add: fail same reply)
    with b show ?thesis by auto
  qed
  from one dup show ?thesis by blast
qed

lemma hello_command:
  "handlePoopCommand helloWorld db helloMessage =
     ([SendTyping, Reply ([55357, 56580] @ js '' Processing your HTML content...''),
       AnalyzeContent (js ''<h1>Hello</h1>'')
         \<lparr> skipSanitization = False, fallbackTitle = js ''Discord Post'', analysisRetries = 2 \<rparr>,
       Edit ([55358, 56800] @ js '' AI analysis complete, sanitizing slug...''),
       Edit ([55357, 56510] @ js '' Saving to database...''),
       PostCreate (helloPost)] @
      afterCreate (fst (create True (js ''2024-01-02 00:00:00'') db (helloPost))),
      snd (create True (js ''2024-01-02 00:00:00'') db (helloPost)))"
proof -
  have st: "startsWith (content helloMessage) (js ''!poop'')"
    by (simp add: startsWith_def helloMessage_def js_def)
  have nb: "js ''<h1>Hello</h1>'' \<noteq> []" "trim (js ''<h1>Hello</h1>'') \<noteq> []"
    unfolding trim_hello by (simp_all add: js_def)
  have w: "installed helloWorld = cleanLibraries" "responses helloWorld = helloResponses"
    "lastIDReported helloWorld = True"
    "currentTimestamp helloWorld = js ''2024-01-02 00:00:00''"
    by (simp_all add: helloWorld_def)
  have d: "\<lparr> postId = None, slug = Some (js ''hello''), title = Some (js ''Hello''),
     description = Some (js ''A greeting''), html_content = Some (js ''<h1>Hello</h1>''),
     discord_user_id = Some (authorId helloMessage),
     discord_username = Some (authorUsername helloMessage),
     created_at = None, updated_at = None \<rparr> = helloPost"
    by (simp add: helloPost_def helloMessage_def)
  show ?thesis
    using st nb
    by (simp add: handlePoopCommand_def extract_hello Let_def w analyze_hello cleanUserSlug_hello d
          split: prod.splits sum.splits)
qed

text \<open>
  Claim C7, counterexample to the claim as stated: the slug \<open>hello\<close> is taken, and the
  whole run is one call of \<open>Post.create\<close> followed at once by the rejection.
\<close>

theorem handlePoopCommand_no_resolution_counterexample:
  "handlePoopCommand helloWorld helloStore helloMessage =
     ([SendTyping, Reply ([55357, 56580] @ js '' Processing your HTML content...''),
       AnalyzeContent (js ''<h1>Hello</h1>'')
         \<lparr> skipSanitization = False, fallbackTitle = js ''Discord Post'', analysisRetries = 2 \<rparr>,
       Edit ([55358, 56800] @ js '' AI analysis complete, sanitizing slug...''),
       Edit ([55357, 56510] @ js '' Saving to database...''),
       PostCreate helloPost, Reply duplicateReply],
      helloStore)"
proof -
  have dup: "\<exists>row\<in>set (rows helloStore). slug row = slug helloPost"
    by (simp add: helloStore_def helloPost_def)
  have c: "create True (js ''2024-01-02 00:00:00'') helloStore helloPost =
      (Inl (slugExistsError (slug helloPost)), helloStore)"
    using helloPost_acceptable dup by (rule create_duplicate)
  have p: "isPlainSlug (js ''hello'')"
    by (simp add: isPlainSlug_def isPlainSlugChar_def isDigit_def js_def)
  have "errorReply (slugExistsError (slug helloPost)) = duplicateReply"
    using errorReply_duplicate[OF p] by (simp add: helloPost_def)
  then show ?thesis by (simp add: hello_command c)
qed

text \<open>Claim C7, witness: the same run, read off the theorem.\<close>

theorem handlePoopCommand_no_retry_witness:
  "snd (handlePoopCommand helloWorld helloStore helloMessage) = helloStore \<and>
   length (filter isPostCreate (fst (handlePoopCommand helloWorld helloStore helloMessage))) \<le> 1 \<and>
   (\<exists>before. fst (handlePoopCommand helloWorld helloStore helloMessage) =
               before @ [PostCreate helloPost, Reply duplicateReply])"
proof -
  have dup: "\<exists>row\<in>set (rows helloStore). slug row = slug helloPost"
    by (simp add: helloStore_def helloPost_def)
  have c: "create True (js ''2024-01-02 00:00:00'') helloStore helloPost =
      (Inl (slugExistsError (slug helloPost)), helloStore)"
    using helloPost_acceptable dup by (rule create_duplicate)
  have mem: "PostCreate helloPost \<in> set (fst (handlePoopCommand helloWorld helloStore helloMessage))"
    by (simp add: hello_command c)
  have fail: "fst (create (lastIDReported helloWorld) (currentTimestamp helloWorld) helloStore helloPost)
      = Inl (slugExistsError (slug helloPost))"
    by (simp add: helloWorld_def c)
  from handlePoopCommand_no_retry[of helloWorld helloStore helloMessage] mem fail
  show ?thesis by blast
qed

lemma script_command:
  "handlePoopCommand scriptWorld db scriptMessage =
     ([SendTyping, Reply ([55357, 56580] @ js '' Processing your HTML content...''),
       AnalyzeContent (js ''<h1>Hello</h1><script>alert(1)</script>'')
         \<lparr> skipSanitization = False, fallbackTitle = js ''Discord Post'', analysisRetries = 2 \<rparr>,
       Edit ([55358, 56800] @ js '' AI analysis complete, sanitizing slug...''),
       Edit ([55357, 56510] @ js '' Saving to database...''),
       PostCreate (helloPost \<lparr> html_content := Some (js ''<h1>Hello</h1><script>alert(1)</script>'') \<rparr>)] @
      afterCreate (fst (create True (js ''2024-01-02 00:00:00'') db (helloPost \<lparr> html_content := Some (js ''<h1>Hello</h1><script>alert(1)</script>'') \<rparr>))),
      snd (create True (js ''2024-01-02 00:00:00'') db (helloPost \<lparr> html_content := Some (js ''<h1>Hello</h1><script>alert(1)</script>'') \<rparr>)))"
proof -
  have st: "startsWith (content scriptMessage) (js ''!poop'')"
    by (simp add: startsWith_def scriptMessage_def js_def)
  have nb: "js ''<h1>Hello</h1><script>alert(1)</script>'' \<noteq> []"
    "trim (js ''<h1>Hello</h1><script>alert(1)</script>'') \<noteq> []"
    by (simp_all add: string_eval)
  have w: "installed scriptWorld = scriptLibraries" "responses scriptWorld = helloResponses"
    "lastIDReported scriptWorld = True"
    "currentTimestamp scriptWorld = js ''2024-01-02 00:00:00''"
    by (simp_all add: scriptWorld_def helloWorld_def)
  have d: "\<lparr> postId = None, slug = Some (js ''hello''), title = Some (js ''Hello''),
     description = Some (js ''A greeting''),
     html_content = Some (js ''<h1>Hello</h1><script>alert(1)</script>''),
     discord_user_id = Some (authorId scriptMessage),
     discord_username = Some (authorUsername scriptMessage),
     created_at = None, updated_at = None \<rparr> =
     helloPost \<lparr> html_content := Some (js ''<h1>Hello</h1><script>alert(1)</script>'') \<rparr>"
    by (simp add: helloPost_def scriptMessage_def)
  show ?thesis
    using st nb
    by (simp add: handlePoopCommand_def extract_script Let_def w analyze_script cleanUserSlug_hello d
          split: prod.splits sum.splits)
qed

text \<open>
  Claim C1 at the command that carries \<open><h1>Hello</h1><script>alert(1)</script>\<close> in an
  html code block: the sanitizer of the analyzer yields \<open><h1>Hello</h1>\<close>, yet the
  \<open>html_content\<close> handed to \<open>Post.create\<close> and stored is the extracted content, script
  included.
\<close>

theorem handlePoopCommand_stores_unsanitized:
  "analyzerSanitizeHTML (installed scriptWorld) (js ''<h1>Hello</h1><script>alert(1)</script>'') =
     js ''<h1>Hello</h1>'' \<and>
   map html_content (rows (snd (handlePoopCommand scriptWorld emptyStore scriptMessage))) =
     [Some (js ''<h1>Hello</h1><script>alert(1)</script>'')] \<and>
   PostCreate (helloPost \<lparr> html_content := Some (js ''<h1>Hello</h1><script>alert(1)</script>'') \<rparr>)
     \<in> set (fst (handlePoopCommand scriptWorld emptyStore scriptMessage))"
proof -
  let ?data = "helloPost \<lparr> html_content := Some (js ''<h1>Hello</h1><script>alert(1)</script>'') \<rparr>"
  have t: "trim [60, 104, 49, 62, 72, 101, 108, 108, 111, 60, 47, 104, 49, 62, 60, 115, 99, 114,
      105, 112, 116, 62, 97, 108, 101, 114, 116, 40, 49, 41, 60, 47, 115, 99, 114, 105, 112, 116, 62]
      \<noteq> []"
    by (simp add: trim_def trimStart_def trimEnd_def isSpace_def)
  have acc: "acceptable ?data"
    using trims t
    by (simp add: acceptable_def helloPost_def blank_def isPlainSlug_def isPlainSlugChar_def
          isDigit_def js_def)
  have fresh: "\<forall>row\<in>set (rows emptyStore). slug row \<noteq> slug ?data" "wellFormed emptyStore"
    "js ''2024-01-02 00:00:00'' \<noteq> []"
    by (simp_all add: emptyStore_def wellFormed_def js_def)
  have c: "create True (js ''2024-01-02 00:00:00'') emptyStore ?data =
      (Inr (newPost ?data \<lparr> postId := Some (sequence emptyStore + 1),
                             created_at := Some (js ''2024-01-02 00:00:00''),
                             updated_at := Some (js ''2024-01-02 00:00:00'') \<rparr>),
       \<lparr> rows = rows emptyStore @ [newPost ?data \<lparr> postId := Some (sequence emptyStore + 1),
                             created_at := Some (js ''2024-01-02 00:00:00''),
                             updated_at := Some (js ''2024-01-02 00:00:00'') \<rparr>],
         sequence = sequence emptyStore + 1 \<rparr>)"
    using acc fresh by (rule create_inserts)
  have h: "html_content (newPost ?data) = Some (js ''<h1>Hello</h1><script>alert(1)</script>'')"
    using acc by (simp add: newPost_acceptable)
  have s: "analyzerSanitizeHTML (installed scriptWorld) (js ''<h1>Hello</h1><script>alert(1)</script>'') =
     js ''<h1>Hello</h1>''"
    by (simp add: analyzerSanitizeHTML_def scriptWorld_def scriptLibraries_def)
  have m: "PostCreate ?data \<in> set (fst (handlePoopCommand scriptWorld emptyStore scriptMessage))"
    by (simp add: script_command)
  have "rows (snd (handlePoopCommand scriptWorld emptyStore scriptMessage)) =
      rows emptyStore @ [newPost ?data \<lparr> postId := Some (sequence emptyStore + 1),
                             created_at := Some (js ''2024-01-02 00:00:00''),
                             updated_at := Some (js ''2024-01-02 00:00:00'') \<rparr>]"
    by (simp add: script_command c)
  then have r: "map html_content (rows (snd (handlePoopCommand scriptWorld emptyStore scriptMessage))) =
      [Some (js ''<h1>Hello</h1><script>alert(1)</script>'')]"
    using h by (simp add: emptyStore_def)
  from s r m show ?thesis by blast
qed

section \<open>The regular-expression sanitizer of utils/security.js\<close>

lemmas sanitizeHTML_evaluation =
  sanitizeHTML_def removeGlobal_def elementMatch_def attributeMatch_def eventNameMatch_def
  literalMatch_def quotedValueMatch_def unquotedValueMatch_def dangerousAttrs_def
  sanitizeElements_def tagMatch_def openingTagMatch_def sanitizeOpeningTag_def
  emptyElementMatch_def SAFE_HTML_CONFIG_def startsWithCI_def asciiLower_def firstIs_def
  spaces_def isQuote_def isWordChar_def isAlnum_def isAlpha_def isDigit_def isSpace_def
  trim_def trimStart_def trimEnd_def toLowerCase_def lowerUnit_def js_def Let_def

text \<open>
  The ordinary case, a closed script element between two paragraphs: the element and its
  content are removed by the first expression and the paragraphs are kept.
\<close>

lemma sanitizeHTML_removes_closed_script:
  "sanitizeHTML newURL SAFE_HTML_CONFIG (js ''<p>Hello</p><script>alert(1)</script><p>World</p>'')
     = Inr (js ''<p>Hello</p><p>World</p>'')"
  by (simp add: sanitizeHTML_evaluation)

text \<open>
  An opening tag that is never closed by \<open>>\<close> is matched by none of the expressions: not by
  the first, which needs \<open></script>\<close> behind it, and not by the one of \<open>sanitizeElements\<close>,
  which needs a \<open>>\<close>.
\<close>

lemma sanitizeHTML_keeps_unclosed_script:
  "sanitizeHTML newURL SAFE_HTML_CONFIG (js ''<script>x</script><script'') = Inr (js ''<script'')"
  by (simp add: sanitizeHTML_evaluation)

text \<open>
  Claim C2, at an input where it fails. The input holds the script element
  \<open><script>a</script>\<close> followed by \<open><<x>script>alert(1)</script>\<close>. The first expression
  removes the element. \<open>sanitizeElements\<close> then removes the tags \<open><x>\<close> and \<open></script>\<close>,
  neither of which is allowed, and the text to the left and to the right of \<open><x>\<close> joins
  to \<open><script>\<close>; no later step looks for disallowed tags, \<open>sanitizeAttributes\<close> returns a
  tag without attributes as it is, and the element is not empty. The output is
  \<open><script>alert(1)\<close>, which contains \<open><script\<close>, whatever the URL parser of the engine does.
\<close>

theorem sanitizeHTML_keeps_script:
  "sanitizeHTML newURL SAFE_HTML_CONFIG (js ''<script>a</script><<x>script>alert(1)</script>'')
     = Inr (js ''<script>alert(1)'')
   \<and> includesStr (toLowerCase (js ''<script>alert(1)'')) (js ''<script'')"
  by (simp add: sanitizeHTML_evaluation)

end
